theory Spec2Isabelle
  imports Complex_Main
begin

section \<open>The EWMA filter with dynamic smoothing (filter-ewma2)\<close>

text \<open>
  A shallow embedding of \<^verbatim>\<open>FTNoIR_Filter::filter\<close>
  (\<^verbatim>\<open>filter-ewma2/ftnoir_filter_ewma2.cpp\<close>) and of the \<^verbatim>\<open>Timer\<close> class
  (\<^verbatim>\<open>opentrack-compat/timer.hpp\<close>) it uses, in two arithmetics.

  \<^item> The exact embedding computes on \<open>real\<close>: a finite \<^verbatim>\<open>double\<close> is the real
    number it denotes and no operation rounds. It serves the properties that do not
    depend on rounding.
  \<^item> The binary64 embedding (the definitions named \<open>_b64\<close>) is the same program with
    every arithmetic operation rounded to the nearest number of 53 significant bits,
    ties to even (\<open>rnd\<close>), as IEEE 754 binary64 does in the normal range. It serves
    the properties that rounding decides. Overflow, subnormal numbers and the sign of
    zero are not modelled, \<^verbatim>\<open>std::pow\<close> is taken as correctly rounded, and every
    operation is taken to be evaluated in binary64 (no extended precision, no fused
    multiply-add).
  \<^item> In both, the two operations of the source that leave the finite numbers on finite
    operands, a division by zero and \<^verbatim>\<open>pow\<close> where its value is infinite or NaN,
    return \<open>None\<close>. The source has no \<^verbatim>\<open>throw\<close> and no error return: \<open>None\<close> is
    not an error of the program, it says that the invocation returns with an IEEE
    infinity or NaN computed there, which the embedding does not follow any further.
  \<^item> The arrays \<^verbatim>\<open>double[6]\<close> and the pointers \<^verbatim>\<open>input\<close>, \<^verbatim>\<open>output\<close> are
    functions from the index; the source reads and writes the indices \<open>0..5\<close> only.
  \<^item> Every call of \<^verbatim>\<open>clock_gettime\<close> is an input of the invocation
    (\<open>clock_reads\<close>, one field for each call site of the source).
  \<^item> The header \<^verbatim>\<open>ftnoir_filter_ewma2.h\<close> is not part of the sources at hand: the
    constants \<^verbatim>\<open>delta_RC\<close> and \<^verbatim>\<open>noise_RC\<close> it declares are parameters, and the
    settings object \<^verbatim>\<open>s\<close> is a record of the three values read from it.
\<close>

subsection \<open>Arithmetic that can leave the finite numbers\<close>

definition ddiv :: "real \<Rightarrow> real \<Rightarrow> real option" where
  "ddiv x y = (if y = 0 then None else Some (x / y))"

text \<open>
  \<^verbatim>\<open>std::pow\<close> on finite arguments: \<^verbatim>\<open>pow(x, 0)\<close> is 1, \<^verbatim>\<open>pow(0, y)\<close> is 0 for
  positive \<open>y\<close> and infinite for negative \<open>y\<close>, and a negative base has a finite
  power for an integral exponent only.
\<close>

definition std_pow :: "real \<Rightarrow> real \<Rightarrow> real option" where
  "std_pow x y =
     (if y = 0 then Some 1
      else if 0 < x then Some (x powr y)
      else if x = 0 then (if 0 < y then Some 0 else None)
      else if y = of_int \<lfloor>y\<rfloor>
        then Some ((if even \<lfloor>y\<rfloor> then 1 else - 1) * ((- x) powr y))
      else None)"

subsection \<open>The timer\<close>

record timespec =
  tv_sec :: int
  tv_nsec :: int

record Timer =
  state :: timespec

text \<open>
  \<^verbatim>\<open>long long\<close> is modelled as \<open>int\<close>: the difference of two readings of the
  monotonic clock in nanoseconds stays far below \<open>2^63\<close>.
\<close>

definition conv :: "Timer \<Rightarrow> timespec \<Rightarrow> int" where
  "conv t cur =
     (tv_sec cur - tv_sec (state t)) * 1000000000 + (tv_nsec cur - tv_nsec (state t))"

definition start :: "timespec \<Rightarrow> Timer \<Rightarrow> Timer" where
  "start now t = t\<lparr>state := now\<rparr>"

definition elapsed :: "timespec \<Rightarrow> Timer \<Rightarrow> int" where
  "elapsed now t = conv t now"

definition elapsed_seconds :: "timespec \<Rightarrow> Timer \<Rightarrow> real" where
  "elapsed_seconds now t = real_of_int (elapsed now t) * (1 / 1000000000)"

text \<open>
  The readings of the clock during one invocation, in the order of the source: the two
  \<^verbatim>\<open>start()\<close> of the first run, \<^verbatim>\<open>sample_timer.elapsed_seconds()\<close>,
  \<^verbatim>\<open>filter_timer.elapsed_seconds()\<close>, \<^verbatim>\<open>sample_timer.start()\<close> and
  \<^verbatim>\<open>filter_timer.start()\<close>. A reading whose call is not executed is not used.
\<close>

record clock_reads =
  t_init_sample :: timespec
  t_init_filter :: timespec
  t_elapsed_sample :: timespec
  t_elapsed_filter :: timespec
  t_restart_sample :: timespec
  t_restart_filter :: timespec

subsection \<open>Settings and filter state\<close>

record settings =
  kMinSmoothing :: real
  kMaxSmoothing :: real
  kSmoothingScaleCurve :: real

text \<open>The member \<^verbatim>\<open>dt_\<close> of the source is the field \<open>dt\<close>.\<close>

record FTNoIR_Filter =
  first_run :: bool
  sample_timer :: Timer
  filter_timer :: Timer
  last_output :: "nat \<Rightarrow> real"
  last_delta :: "nat \<Rightarrow> real"
  last_noise :: "nat \<Rightarrow> real"
  dt :: real

text \<open>The table \<^verbatim>\<open>static const double c[] = { 5, 5, 3, 1, 1, 1 }\<close>.\<close>

definition c :: "real list" where
  "c = [5, 5, 3, 1, 1, 1]"

subsection \<open>The first run\<close>

definition init_axis :: "(nat \<Rightarrow> real) \<Rightarrow> nat \<Rightarrow> FTNoIR_Filter \<Rightarrow> FTNoIR_Filter" where
  "init_axis input i st =
     st\<lparr>last_output := (last_output st)(i := input i),
        last_delta := (last_delta st)(i := 0),
        last_noise := (last_noise st)(i := 0),
        dt := 0\<rparr>"

definition initialise :: "clock_reads \<Rightarrow> (nat \<Rightarrow> real) \<Rightarrow> FTNoIR_Filter \<Rightarrow> FTNoIR_Filter" where
  "initialise clk input st =
     (if first_run st then
        fold (init_axis input) [0..<6]
          (st\<lparr>first_run := False,
              sample_timer := start (t_init_sample clk) (sample_timer st),
              filter_timer := start (t_init_filter clk) (filter_timer st)\<rparr>)
      else st)"

subsection \<open>The detection of a new sample\<close>

text \<open>The loop with \<^verbatim>\<open>break\<close> over the axes, \<open>1e-4\<close> written as a fraction.\<close>

fun detect_new_sample :: "(nat \<Rightarrow> real) \<Rightarrow> (nat \<Rightarrow> real) \<Rightarrow> nat list \<Rightarrow> bool" where
  "detect_new_sample lo input [] = False"
| "detect_new_sample lo input (i # js) =
     (if \<bar>lo i - input i\<bar> > 1 / 10000 then True else detect_new_sample lo input js)"

definition new_sample :: "FTNoIR_Filter \<Rightarrow> (nat \<Rightarrow> real) \<Rightarrow> bool" where
  "new_sample st input = detect_new_sample (last_output st) input [0..<6]"

subsection \<open>The smoothing of one axis\<close>

text \<open>\<^verbatim>\<open>dt/(dt + RC)\<close>, the shape of \<^verbatim>\<open>delta_alpha\<close>, \<^verbatim>\<open>noise_alpha\<close> and \<^verbatim>\<open>alpha\<close>.\<close>

definition ewma_alpha :: "real \<Rightarrow> real \<Rightarrow> real option" where
  "ewma_alpha dt_x rc = ddiv dt_x (dt_x + rc)"

definition sample_dt :: "clock_reads \<Rightarrow> (nat \<Rightarrow> real) \<Rightarrow> FTNoIR_Filter \<Rightarrow> real" where
  "sample_dt clk input st =
     (if new_sample st input then elapsed_seconds (t_elapsed_sample clk) (sample_timer st)
      else 0)"

definition filter_dt :: "clock_reads \<Rightarrow> FTNoIR_Filter \<Rightarrow> real" where
  "filter_dt clk st = elapsed_seconds (t_elapsed_filter clk) (filter_timer st)"

definition max_smoothing :: "settings \<Rightarrow> real" where
  "max_smoothing s = max (kMinSmoothing s) (kMaxSmoothing s)"

text \<open>
  \<^verbatim>\<open>last_noise[i] < 1e-10 ? 0 : std::min<double>(noise/(9.0*last_noise[i]), 1.0)\<close>
\<close>

definition norm_noise :: "real \<Rightarrow> real \<Rightarrow> real option" where
  "norm_noise noise lnoise =
     (if lnoise < 1 / 10000000000 then Some 0
      else case ddiv noise (9 * lnoise) of None \<Rightarrow> None | Some q \<Rightarrow> Some (min q 1))"

definition smoothing :: "real \<Rightarrow> real \<Rightarrow> real option" where
  "smoothing nn smoothing_scale_curve =
     (case std_pow nn smoothing_scale_curve of None \<Rightarrow> None | Some p \<Rightarrow> Some (1 - p))"

definition RC :: "nat \<Rightarrow> real \<Rightarrow> real \<Rightarrow> real \<Rightarrow> real" where
  "RC i min_s max_s sm = c ! i * (min_s + sm * (max_s - min_s))"

text \<open>
  The time constant of axis \<open>i\<close> from the squared delta \<open>noise\<close> and the updated
  \<^verbatim>\<open>last_noise[i]\<close>: the normalisation, the curve and the weighting by \<^verbatim>\<open>c[i]\<close>.
\<close>

definition axis_RC :: "real \<Rightarrow> real \<Rightarrow> real \<Rightarrow> nat \<Rightarrow> real \<Rightarrow> real \<Rightarrow> real option" where
  "axis_RC curve min_s max_s i noise lnoise =
     (case norm_noise noise lnoise of None \<Rightarrow> None
      | Some nn \<Rightarrow>
          (case smoothing nn curve of None \<Rightarrow> None
           | Some sm \<Rightarrow> Some (RC i min_s max_s sm)))"

text \<open>One iteration of the loop \<^verbatim>\<open>for (unsigned i = 0; i < 6; i++)\<close> over the axes.\<close>

definition filter_axis ::
  "real \<Rightarrow> real \<Rightarrow> real \<Rightarrow> real \<Rightarrow> real \<Rightarrow> real \<Rightarrow> (nat \<Rightarrow> real) \<Rightarrow> nat \<Rightarrow>
   FTNoIR_Filter \<times> (nat \<Rightarrow> real) \<Rightarrow> (FTNoIR_Filter \<times> (nat \<Rightarrow> real)) option" where
  "filter_axis delta_alpha noise_alpha dt_f curve min_s max_s input i acc =
     (let st = fst acc; output = snd acc;
          delta = input i - last_output st i;
          ldelta = delta_alpha * delta + (1 - delta_alpha) * last_delta st i;
          noise = ldelta * ldelta;
          lnoise = noise_alpha * noise + (1 - noise_alpha) * last_noise st i
      in case axis_RC curve min_s max_s i noise lnoise of None \<Rightarrow> None
         | Some rc \<Rightarrow>
             (case ewma_alpha dt_f rc of None \<Rightarrow> None
              | Some alpha \<Rightarrow>
                  let out = alpha * input i + (1 - alpha) * last_output st i
                  in Some (st\<lparr>last_output := (last_output st)(i := out),
                              last_delta := (last_delta st)(i := ldelta),
                              last_noise := (last_noise st)(i := lnoise)\<rparr>,
                           output(i := out))))"

text \<open>
  The same iteration on the four numbers of axis \<open>i\<close> alone: the input, and the
  entries of \<^verbatim>\<open>last_output\<close>, \<^verbatim>\<open>last_delta\<close> and \<^verbatim>\<open>last_noise\<close>. It returns the new
  output, delta and noise (\<open>filter_axis_step\<close> below relates the two).
\<close>

definition axis_step ::
  "real \<Rightarrow> real \<Rightarrow> real \<Rightarrow> real \<Rightarrow> real \<Rightarrow> real \<Rightarrow> nat \<Rightarrow> real \<Rightarrow> real \<Rightarrow> real \<Rightarrow> real \<Rightarrow>
   (real \<times> real \<times> real) option" where
  "axis_step delta_alpha noise_alpha dt_f curve min_s max_s i x lo ld0 ln0 =
     (let delta = x - lo;
          ldelta = delta_alpha * delta + (1 - delta_alpha) * ld0;
          noise = ldelta * ldelta;
          lnoise = noise_alpha * noise + (1 - noise_alpha) * ln0
      in case axis_RC curve min_s max_s i noise lnoise of None \<Rightarrow> None
         | Some rc \<Rightarrow>
             (case ewma_alpha dt_f rc of None \<Rightarrow> None
              | Some alpha \<Rightarrow> Some (alpha * x + (1 - alpha) * lo, ldelta, lnoise)))"

fun for_axes :: "(nat \<Rightarrow> 'a \<Rightarrow> 'a option) \<Rightarrow> nat list \<Rightarrow> 'a \<Rightarrow> 'a option" where
  "for_axes body [] a = Some a"
| "for_axes body (i # js) a =
     (case body i a of None \<Rightarrow> None | Some a' \<Rightarrow> for_axes body js a')"

subsection \<open>The filter\<close>

definition restart_timers :: "clock_reads \<Rightarrow> bool \<Rightarrow> FTNoIR_Filter \<Rightarrow> FTNoIR_Filter" where
  "restart_timers clk ns st =
     (let st1 = (if ns then st\<lparr>sample_timer := start (t_restart_sample clk) (sample_timer st)\<rparr>
                 else st)
      in st1\<lparr>filter_timer := start (t_restart_filter clk) (filter_timer st1)\<rparr>)"

definition FTNoIR_Filter_filter ::
  "real \<Rightarrow> real \<Rightarrow> settings \<Rightarrow> clock_reads \<Rightarrow> (nat \<Rightarrow> real) \<Rightarrow> (nat \<Rightarrow> real) \<Rightarrow>
   FTNoIR_Filter \<Rightarrow> (FTNoIR_Filter \<times> (nat \<Rightarrow> real)) option" where
  "FTNoIR_Filter_filter delta_RC noise_RC s clk input output st0 =
     (let st = initialise clk input st0;
          ns = new_sample st input;
          dt_s = sample_dt clk input st;
          dt_f = filter_dt clk st;
          st' = restart_timers clk ns st
      in case ewma_alpha dt_s delta_RC of None \<Rightarrow> None
         | Some delta_alpha \<Rightarrow>
             (case ewma_alpha dt_s noise_RC of None \<Rightarrow> None
              | Some noise_alpha \<Rightarrow>
                  for_axes
                    (filter_axis delta_alpha noise_alpha dt_f (kSmoothingScaleCurve s)
                       (kMinSmoothing s) (max_smoothing s) input)
                    [0..<6] (st', output)))"

section \<open>The filter in binary64 arithmetic\<close>

subsection \<open>Rounding to the nearest binary64 number\<close>

text \<open>
  \<open>round_even\<close> rounds to the nearest integer, a tie to the even one. \<open>rnd\<close> scales
  a number by the power of two that brings its magnitude into \<open>[2^52, 2^53)\<close>, rounds
  it there and scales back: the nearest number with 53 significant bits.
\<close>

definition round_even :: "real \<Rightarrow> int" where
  "round_even x =
     (let f = \<lfloor>x\<rfloor>; r = x - of_int f
      in if r < 1 / 2 then f else if 1 / 2 < r then f + 1 else if even f then f else f + 1)"

definition rnd :: "real \<Rightarrow> real" where
  "rnd x =
     (if x = 0 then 0
      else let e = \<lfloor>log 2 \<bar>x\<bar>\<rfloor> - 52
           in sgn x * of_int (round_even (\<bar>x\<bar> / 2 powr of_int e)) * 2 powr of_int e)"

text \<open>The literals \<^verbatim>\<open>1e-9\<close>, \<^verbatim>\<open>1e-4\<close> and \<^verbatim>\<open>1e-10\<close> of the source.\<close>

definition d_1e_9 :: real where "d_1e_9 = rnd (1 / 1000000000)"

definition d_1e_4 :: real where "d_1e_4 = rnd (1 / 10000)"

definition d_1e_10 :: real where "d_1e_10 = rnd (1 / 10000000000)"

subsection \<open>The operations of the filter, rounded\<close>

text \<open>
  \<^verbatim>\<open>elapsed() * 1e-9\<close>: the conversion of the \<^verbatim>\<open>long long\<close> to \<^verbatim>\<open>double\<close> and the
  product round.
\<close>

definition elapsed_seconds_b64 :: "timespec \<Rightarrow> Timer \<Rightarrow> real" where
  "elapsed_seconds_b64 now t = rnd (rnd (real_of_int (elapsed now t)) * d_1e_9)"

fun detect_new_sample_b64 :: "(nat \<Rightarrow> real) \<Rightarrow> (nat \<Rightarrow> real) \<Rightarrow> nat list \<Rightarrow> bool" where
  "detect_new_sample_b64 lo input [] = False"
| "detect_new_sample_b64 lo input (i # js) =
     (if \<bar>rnd (lo i - input i)\<bar> > d_1e_4 then True else detect_new_sample_b64 lo input js)"

definition new_sample_b64 :: "FTNoIR_Filter \<Rightarrow> (nat \<Rightarrow> real) \<Rightarrow> bool" where
  "new_sample_b64 st input = detect_new_sample_b64 (last_output st) input [0..<6]"

definition ewma_alpha_b64 :: "real \<Rightarrow> real \<Rightarrow> real option" where
  "ewma_alpha_b64 dt_x rc =
     (case ddiv dt_x (rnd (dt_x + rc)) of None \<Rightarrow> None | Some q \<Rightarrow> Some (rnd q))"

definition sample_dt_b64 :: "clock_reads \<Rightarrow> (nat \<Rightarrow> real) \<Rightarrow> FTNoIR_Filter \<Rightarrow> real" where
  "sample_dt_b64 clk input st =
     (if new_sample_b64 st input
      then elapsed_seconds_b64 (t_elapsed_sample clk) (sample_timer st)
      else 0)"

definition filter_dt_b64 :: "clock_reads \<Rightarrow> FTNoIR_Filter \<Rightarrow> real" where
  "filter_dt_b64 clk st = elapsed_seconds_b64 (t_elapsed_filter clk) (filter_timer st)"

definition norm_noise_b64 :: "real \<Rightarrow> real \<Rightarrow> real option" where
  "norm_noise_b64 noise lnoise =
     (if lnoise < d_1e_10 then Some 0
      else case ddiv noise (rnd (9 * lnoise)) of None \<Rightarrow> None
           | Some q \<Rightarrow> Some (min (rnd q) 1))"

definition smoothing_b64 :: "real \<Rightarrow> real \<Rightarrow> real option" where
  "smoothing_b64 nn smoothing_scale_curve =
     (case std_pow nn smoothing_scale_curve of None \<Rightarrow> None
      | Some p \<Rightarrow> Some (rnd (1 - rnd p)))"

definition RC_b64 :: "nat \<Rightarrow> real \<Rightarrow> real \<Rightarrow> real \<Rightarrow> real" where
  "RC_b64 i min_s max_s sm = rnd (c ! i * rnd (min_s + rnd (sm * rnd (max_s - min_s))))"

definition axis_RC_b64 :: "real \<Rightarrow> real \<Rightarrow> real \<Rightarrow> nat \<Rightarrow> real \<Rightarrow> real \<Rightarrow> real option" where
  "axis_RC_b64 curve min_s max_s i noise lnoise =
     (case norm_noise_b64 noise lnoise of None \<Rightarrow> None
      | Some nn \<Rightarrow>
          (case smoothing_b64 nn curve of None \<Rightarrow> None
           | Some sm \<Rightarrow> Some (RC_b64 i min_s max_s sm)))"

text \<open>
  One iteration of the loop over the axes; every \<^verbatim>\<open>+\<close>, \<^verbatim>\<open>-\<close>, \<^verbatim>\<open>*\<close> and \<^verbatim>\<open>/\<close>
  of the lines 81 to 97 rounds its result.
\<close>

definition filter_axis_b64 ::
  "real \<Rightarrow> real \<Rightarrow> real \<Rightarrow> real \<Rightarrow> real \<Rightarrow> real \<Rightarrow> (nat \<Rightarrow> real) \<Rightarrow> nat \<Rightarrow>
   FTNoIR_Filter \<times> (nat \<Rightarrow> real) \<Rightarrow> (FTNoIR_Filter \<times> (nat \<Rightarrow> real)) option" where
  "filter_axis_b64 delta_alpha noise_alpha dt_f curve min_s max_s input i acc =
     (let st = fst acc; output = snd acc;
          delta = rnd (input i - last_output st i);
          ldelta = rnd (rnd (delta_alpha * delta) + rnd (rnd (1 - delta_alpha) * last_delta st i));
          noise = rnd (ldelta * ldelta);
          lnoise = rnd (rnd (noise_alpha * noise) + rnd (rnd (1 - noise_alpha) * last_noise st i))
      in case axis_RC_b64 curve min_s max_s i noise lnoise of None \<Rightarrow> None
         | Some rc \<Rightarrow>
             (case ewma_alpha_b64 dt_f rc of None \<Rightarrow> None
              | Some alpha \<Rightarrow>
                  let out = rnd (rnd (alpha * input i) + rnd (rnd (1 - alpha) * last_output st i))
                  in Some (st\<lparr>last_output := (last_output st)(i := out),
                              last_delta := (last_delta st)(i := ldelta),
                              last_noise := (last_noise st)(i := lnoise)\<rparr>,
                           output(i := out))))"

definition axis_step_b64 ::
  "real \<Rightarrow> real \<Rightarrow> real \<Rightarrow> real \<Rightarrow> real \<Rightarrow> real \<Rightarrow> nat \<Rightarrow> real \<Rightarrow> real \<Rightarrow> real \<Rightarrow> real \<Rightarrow>
   (real \<times> real \<times> real) option" where
  "axis_step_b64 delta_alpha noise_alpha dt_f curve min_s max_s i x lo ld0 ln0 =
     (let delta = rnd (x - lo);
          ldelta = rnd (rnd (delta_alpha * delta) + rnd (rnd (1 - delta_alpha) * ld0));
          noise = rnd (ldelta * ldelta);
          lnoise = rnd (rnd (noise_alpha * noise) + rnd (rnd (1 - noise_alpha) * ln0))
      in case axis_RC_b64 curve min_s max_s i noise lnoise of None \<Rightarrow> None
         | Some rc \<Rightarrow>
             (case ewma_alpha_b64 dt_f rc of None \<Rightarrow> None
              | Some alpha \<Rightarrow>
                  Some (rnd (rnd (alpha * x) + rnd (rnd (1 - alpha) * lo)), ldelta, lnoise)))"

text \<open>
  The invocation: the first-run block, the restart of the timers and the clamp
  \<^verbatim>\<open>std::max\<close> do no arithmetic and are those of the exact embedding.
\<close>

definition FTNoIR_Filter_filter_b64 ::
  "real \<Rightarrow> real \<Rightarrow> settings \<Rightarrow> clock_reads \<Rightarrow> (nat \<Rightarrow> real) \<Rightarrow> (nat \<Rightarrow> real) \<Rightarrow>
   FTNoIR_Filter \<Rightarrow> (FTNoIR_Filter \<times> (nat \<Rightarrow> real)) option" where
  "FTNoIR_Filter_filter_b64 delta_RC noise_RC s clk input output st0 =
     (let st = initialise clk input st0;
          ns = new_sample_b64 st input;
          dt_s = sample_dt_b64 clk input st;
          dt_f = filter_dt_b64 clk st;
          st' = restart_timers clk ns st
      in case ewma_alpha_b64 dt_s delta_RC of None \<Rightarrow> None
         | Some delta_alpha \<Rightarrow>
             (case ewma_alpha_b64 dt_s noise_RC of None \<Rightarrow> None
              | Some noise_alpha \<Rightarrow>
                  for_axes
                    (filter_axis_b64 delta_alpha noise_alpha dt_f (kSmoothingScaleCurve s)
                       (kMinSmoothing s) (max_smoothing s) input)
                    [0..<6] (st', output)))"

subsection \<open>A concrete run\<close>

text \<open>
  Values for concrete runs: settings inside the sliders' ranges, degenerate settings
  (the maximum below the minimum, no positive time constant), a filter object as
  the constructor leaves it (\<^verbatim>\<open>first_run\<close> set, the arrays not initialised), a
  filter that has run before, three poses (the last one below the threshold of the
  detection), and clock readings 100 ns apart that start one second after the timers
  of \<open>example_running\<close>.
\<close>

definition example_settings :: settings where
  "example_settings =
     \<lparr>kMinSmoothing = 1 / 50, kMaxSmoothing = 7 / 10, kSmoothingScaleCurve = 1\<rparr>"


definition example_clock :: clock_reads where
  "example_clock =
     \<lparr>t_init_sample = \<lparr>tv_sec = 11, tv_nsec = 0\<rparr>,
      t_init_filter = \<lparr>tv_sec = 11, tv_nsec = 100\<rparr>,
      t_elapsed_sample = \<lparr>tv_sec = 11, tv_nsec = 200\<rparr>,
      t_elapsed_filter = \<lparr>tv_sec = 11, tv_nsec = 300\<rparr>,
      t_restart_sample = \<lparr>tv_sec = 11, tv_nsec = 400\<rparr>,
      t_restart_filter = \<lparr>tv_sec = 11, tv_nsec = 500\<rparr>\<rparr>"


definition example_running :: FTNoIR_Filter where
  "example_running =
     \<lparr>first_run = False,
      sample_timer = \<lparr>state = \<lparr>tv_sec = 10, tv_nsec = 200\<rparr>\<rparr>,
      filter_timer = \<lparr>state = \<lparr>tv_sec = 10, tv_nsec = 300\<rparr>\<rparr>,
      last_output = (\<lambda>_. 0), last_delta = (\<lambda>_. 1 / 4), last_noise = (\<lambda>_. 1 / 8), dt = 0\<rparr>"

definition example_pose :: "nat \<Rightarrow> real" where
  "example_pose i = real i + 1"

definition example_rest :: "nat \<Rightarrow> real" where
  "example_rest i = 0"

definition example_jitter :: "nat \<Rightarrow> real" where
  "example_jitter i = 1 / 20000"

text \<open>
  For the binary64 embedding: settings with the decimal minimum 0.03 and maximum 0.3,
  settings with minimum and maximum 0.5, a filter at rest at the pose 100, that pose,
  a clock that reads 10 ms after the timers of that filter, and a clock that has not
  advanced since the timers of \<open>example_running\<close> were started.
\<close>

definition example_b64_settings :: settings where
  "example_b64_settings =
     \<lparr>kMinSmoothing = rnd (3 / 100), kMaxSmoothing = rnd (3 / 10), kSmoothingScaleCurve = 1\<rparr>"

definition example_flat :: settings where
  "example_flat = \<lparr>kMinSmoothing = 1 / 2, kMaxSmoothing = 1 / 2, kSmoothingScaleCurve = 1\<rparr>"

definition example_converged :: FTNoIR_Filter where
  "example_converged =
     \<lparr>first_run = False,
      sample_timer = \<lparr>state = \<lparr>tv_sec = 10, tv_nsec = 200\<rparr>\<rparr>,
      filter_timer = \<lparr>state = \<lparr>tv_sec = 10, tv_nsec = 300\<rparr>\<rparr>,
      last_output = (\<lambda>_. 100), last_delta = (\<lambda>_. 0), last_noise = (\<lambda>_. 0), dt = 0\<rparr>"

definition example_hundred :: "nat \<Rightarrow> real" where
  "example_hundred i = 100"

definition example_clock_10ms :: clock_reads where
  "example_clock_10ms =
     \<lparr>t_init_sample = \<lparr>tv_sec = 10, tv_nsec = 10000000\<rparr>,
      t_init_filter = \<lparr>tv_sec = 10, tv_nsec = 10000100\<rparr>,
      t_elapsed_sample = \<lparr>tv_sec = 10, tv_nsec = 10000200\<rparr>,
      t_elapsed_filter = \<lparr>tv_sec = 10, tv_nsec = 10000300\<rparr>,
      t_restart_sample = \<lparr>tv_sec = 10, tv_nsec = 10000400\<rparr>,
      t_restart_filter = \<lparr>tv_sec = 10, tv_nsec = 10000500\<rparr>\<rparr>"


section \<open>Properties\<close>

subsection \<open>Arithmetic and the parts of one iteration\<close>

lemma ewma_alpha_zero: "rc \<noteq> 0 \<Longrightarrow> ewma_alpha 0 rc = Some 0"
  by (simp add: ewma_alpha_def ddiv_def)

lemma ewma_alpha_range:
  assumes "0 \<le> d" "0 < rc"
  shows "\<exists>a. ewma_alpha d rc = Some a \<and> 0 \<le> a \<and> a < 1"
  using assms by (simp add: ewma_alpha_def ddiv_def)

lemma norm_noise_range:
  assumes "0 \<le> noise"
  shows "\<exists>nn. norm_noise noise lnoise = Some nn \<and> 0 \<le> nn \<and> nn \<le> 1"
  using assms by (auto simp: norm_noise_def ddiv_def)

lemma std_pow_unit:
  assumes "0 \<le> x" "x \<le> 1" "0 \<le> y"
  shows "\<exists>p. std_pow x y = Some p \<and> 0 \<le> p \<and> p \<le> 1"
proof (cases "y = 0 \<or> x = 0")
  case True
  with assms show ?thesis by (auto simp: std_pow_def)
next
  case False
  with assms have "0 < x" "0 < y" by auto
  moreover have "x powr y \<le> 1 powr y"
    using assms by (intro powr_mono2) auto
  ultimately show ?thesis by (simp add: std_pow_def)
qed

lemma smoothing_range:
  assumes "0 \<le> nn" "nn \<le> 1" "0 \<le> e"
  shows "\<exists>sm. smoothing nn e = Some sm \<and> 0 \<le> sm \<and> sm \<le> 1"
  using std_pow_unit [OF assms] by (auto simp: smoothing_def)

lemma c_pos:
  assumes "i < 6"
  shows "0 < c ! i"
proof -
  have "i < length c" using assms by (simp add: c_def)
  then have "c ! i \<in> set c" by (rule nth_mem)
  moreover have "\<forall>x\<in>set c. 0 < x" by (simp add: c_def)
  ultimately show ?thesis by blast
qed

lemma RC_bounds:
  assumes "i < 6" "0 \<le> sm" "sm \<le> 1" "min_s \<le> max_s"
  shows "c ! i * min_s \<le> RC i min_s max_s sm" "RC i min_s max_s sm \<le> c ! i * max_s"
proof -
  have w: "0 < c ! i" using assms(1) by (rule c_pos)
  have "0 \<le> sm * (max_s - min_s)" using assms by simp
  then have "min_s \<le> min_s + sm * (max_s - min_s)" by simp
  then show "c ! i * min_s \<le> RC i min_s max_s sm"
    unfolding RC_def using w by simp
  have "sm * (max_s - min_s) \<le> 1 * (max_s - min_s)"
    using assms by (intro mult_right_mono) auto
  then have "min_s + sm * (max_s - min_s) \<le> max_s" by simp
  then show "RC i min_s max_s sm \<le> c ! i * max_s"
    unfolding RC_def using w by simp
qed

lemma axis_RC_bounds:
  assumes "i < 6" "0 \<le> e" "min_s \<le> max_s"
  shows "\<exists>rc. axis_RC e min_s max_s i (ldelta * ldelta) lnoise = Some rc
           \<and> c ! i * min_s \<le> rc \<and> rc \<le> c ! i * max_s"
proof -
  obtain nn where nn: "norm_noise (ldelta * ldelta) lnoise = Some nn" "0 \<le> nn" "nn \<le> 1"
    using norm_noise_range [of "ldelta * ldelta" lnoise] by auto
  obtain sm where sm: "smoothing nn e = Some sm" "0 \<le> sm" "sm \<le> 1"
    using smoothing_range [OF nn(2,3) assms(2)] by auto
  show ?thesis
    using nn(1) sm(1) RC_bounds [OF assms(1) sm(2,3) assms(3)]
    by (simp add: axis_RC_def)
qed

lemma fold_init_axis:
  "last_output (fold (init_axis input) js st) i = (if i \<in> set js then input i else last_output st i)"
  "last_delta (fold (init_axis input) js st) i = (if i \<in> set js then 0 else last_delta st i)"
  "last_noise (fold (init_axis input) js st) i = (if i \<in> set js then 0 else last_noise st i)"
  "first_run (fold (init_axis input) js st) = first_run st"
  "sample_timer (fold (init_axis input) js st) = sample_timer st"
  "filter_timer (fold (init_axis input) js st) = filter_timer st"
  by (induction js arbitrary: st; simp add: init_axis_def)+

lemma detect_new_sample_iff:
  "detect_new_sample lo input js \<longleftrightarrow> (\<exists>i\<in>set js. \<bar>lo i - input i\<bar> > 1 / 10000)"
  by (induction js) auto

lemma new_sample_iff:
  "new_sample st input \<longleftrightarrow> (\<exists>i<6. \<bar>input i - last_output st i\<bar> > 1 / 10000)"
  by (auto simp: new_sample_def detect_new_sample_iff abs_minus_commute)

lemma filter_axis_step:
  "filter_axis da na dt_f e mn mx input i (st, out) =
     (case axis_step da na dt_f e mn mx i (input i) (last_output st i) (last_delta st i) (last_noise st i) of
        None \<Rightarrow> None
      | Some (out_i, ld, ln') \<Rightarrow>
          Some (st\<lparr>last_output := (last_output st)(i := out_i),
                   last_delta := (last_delta st)(i := ld),
                   last_noise := (last_noise st)(i := ln')\<rparr>, out(i := out_i)))"
  by (simp add: filter_axis_def axis_step_def Let_def split: option.splits)

subsection \<open>The loop over the axes\<close>

lemma axis_step_SomeD:
  assumes "axis_step da na dt_f e mn mx i x lo ld0 ln0 = Some (out_i, ld, ln')"
  shows "ld = da * (x - lo) + (1 - da) * ld0"
    and "ln' = na * (ld * ld) + (1 - na) * ln0"
    and "\<exists>rc alpha. axis_RC e mn mx i (ld * ld) ln' = Some rc \<and> ewma_alpha dt_f rc = Some alpha
           \<and> out_i = alpha * x + (1 - alpha) * lo"
  using assms by (auto simp: axis_step_def Let_def split: option.splits)

lemma axis_step_total:
  assumes "i < 6" "0 \<le> e" "mn \<le> mx" "0 < mn" "0 \<le> dt_f"
  shows "axis_step da na dt_f e mn mx i x lo ld0 ln0 \<noteq> None"
proof -
  define ld where "ld = da * (x - lo) + (1 - da) * ld0"
  define ln' where "ln' = na * (ld * ld) + (1 - na) * ln0"
  obtain rc where rc: "axis_RC e mn mx i (ld * ld) ln' = Some rc" "c ! i * mn \<le> rc"
    using axis_RC_bounds [OF assms(1,2,3), of ld ln'] by auto
  have "0 < c ! i * mn" using c_pos [OF assms(1)] assms(4) by simp
  then have "dt_f + rc \<noteq> 0" using rc(2) assms(5) by linarith
  then show ?thesis
    using rc(1) by (simp add: axis_step_def Let_def ld_def ln'_def ewma_alpha_def ddiv_def)
qed

lemma for_axes_filter_axis:
  assumes "distinct js"
    and "for_axes (filter_axis da na dt_f e mn mx input) js (st, out) = Some (st', out')"
  shows "(\<forall>i. (i \<in> set js \<longrightarrow>
              axis_step da na dt_f e mn mx i (input i) (last_output st i) (last_delta st i) (last_noise st i)
                = Some (last_output st' i, last_delta st' i, last_noise st' i)
              \<and> out' i = last_output st' i)
          \<and> (i \<notin> set js \<longrightarrow>
              last_output st' i = last_output st i \<and> last_delta st' i = last_delta st i
              \<and> last_noise st' i = last_noise st i \<and> out' i = out i))
       \<and> first_run st' = first_run st \<and> sample_timer st' = sample_timer st
       \<and> filter_timer st' = filter_timer st \<and> dt st' = dt st"
  using assms
proof (induction js arbitrary: st out)
  case Nil
  then show ?case by simp
next
  case (Cons j js)
  from Cons.prems(2) obtain out_j ld ln' where
    step: "axis_step da na dt_f e mn mx j (input j) (last_output st j) (last_delta st j) (last_noise st j)
             = Some (out_j, ld, ln')"
    by (auto simp: filter_axis_step split: option.splits)
  define st1 where "st1 = st\<lparr>last_output := (last_output st)(j := out_j),
                             last_delta := (last_delta st)(j := ld),
                             last_noise := (last_noise st)(j := ln')\<rparr>"
  have rest: "for_axes (filter_axis da na dt_f e mn mx input) js (st1, out(j := out_j)) = Some (st', out')"
    using Cons.prems(2) step by (simp add: filter_axis_step st1_def)
  have dj: "j \<notin> set js" "distinct js" using Cons.prems(1) by auto
  note ih = Cons.IH [OF dj(2) rest]
  have ih_in: "axis_step da na dt_f e mn mx i (input i) (last_output st1 i) (last_delta st1 i) (last_noise st1 i)
                 = Some (last_output st' i, last_delta st' i, last_noise st' i)
               \<and> out' i = last_output st' i" if "i \<in> set js" for i
    using ih that by blast
  have ih_out: "last_output st' i = last_output st1 i \<and> last_delta st' i = last_delta st1 i
               \<and> last_noise st' i = last_noise st1 i \<and> out' i = (out(j := out_j)) i" if "i \<notin> set js" for i
    using ih that by blast
  have ih_rest: "first_run st' = first_run st1" "sample_timer st' = sample_timer st1"
    "filter_timer st' = filter_timer st1" "dt st' = dt st1"
    using ih by blast+
  have other: "last_output st1 i = last_output st i" "last_delta st1 i = last_delta st i"
    "last_noise st1 i = last_noise st i" if "i \<noteq> j" for i
    using that by (simp_all add: st1_def)
  have at_j: "last_output st1 j = out_j" "last_delta st1 j = ld" "last_noise st1 j = ln'"
    by (simp_all add: st1_def)
  have "axis_step da na dt_f e mn mx i (input i) (last_output st i) (last_delta st i) (last_noise st i)
          = Some (last_output st' i, last_delta st' i, last_noise st' i)
        \<and> out' i = last_output st' i" if "i \<in> set (j # js)" for i
  proof (cases "i = j")
    case True
    then show ?thesis using ih_out [OF dj(1)] step at_j by simp
  next
    case False
    with that have "i \<in> set js" by simp
    from ih_in [OF this] other [OF False] show ?thesis by simp
  qed
  moreover have "last_output st' i = last_output st i \<and> last_delta st' i = last_delta st i
        \<and> last_noise st' i = last_noise st i \<and> out' i = out i" if "i \<notin> set (j # js)" for i
  proof -
    from that have "i \<noteq> j" "i \<notin> set js" by auto
    from ih_out [OF this(2)] other [OF this(1)] this(1) show ?thesis by simp
  qed
  moreover have "first_run st' = first_run st" "sample_timer st' = sample_timer st"
    "filter_timer st' = filter_timer st" "dt st' = dt st"
    using ih_rest by (simp_all add: st1_def)
  ultimately show ?case by blast
qed

lemma for_axes_filter_axis_total:
  assumes "distinct js"
    and "\<forall>i\<in>set js. axis_step da na dt_f e mn mx i (input i) (last_output st i) (last_delta st i) (last_noise st i) \<noteq> None"
  shows "\<exists>r. for_axes (filter_axis da na dt_f e mn mx input) js (st, out) = Some r"
  using assms
proof (induction js arbitrary: st out)
  case Nil
  then show ?case by simp
next
  case (Cons j js)
  from Cons.prems(2) obtain out_j ld ln' where
    step: "axis_step da na dt_f e mn mx j (input j) (last_output st j) (last_delta st j) (last_noise st j)
             = Some (out_j, ld, ln')"
    by fastforce
  define st1 where "st1 = st\<lparr>last_output := (last_output st)(j := out_j),
                             last_delta := (last_delta st)(j := ld),
                             last_noise := (last_noise st)(j := ln')\<rparr>"
  have dj: "j \<notin> set js" "distinct js" using Cons.prems(1) by auto
  have "\<forall>i\<in>set js. axis_step da na dt_f e mn mx i (input i) (last_output st1 i) (last_delta st1 i) (last_noise st1 i) \<noteq> None"
    using Cons.prems(2) dj(1) by (auto simp: st1_def)
  from Cons.IH [OF dj(2) this, of "out(j := out_j)"] obtain r where
    "for_axes (filter_axis da na dt_f e mn mx input) js (st1, out(j := out_j)) = Some r" by blast
  then have "for_axes (filter_axis da na dt_f e mn mx input) (j # js) (st, out) = Some r"
    using step by (simp add: filter_axis_step st1_def)
  then show ?case by blast
qed

lemma restart_timers_fields [simp]:
  "last_output (restart_timers clk ns st) = last_output st"
  "last_delta (restart_timers clk ns st) = last_delta st"
  "last_noise (restart_timers clk ns st) = last_noise st"
  "first_run (restart_timers clk ns st) = first_run st"
  by (simp_all add: restart_timers_def Let_def)

lemma axes_set: "set [0..<6] = {i. i < 6}" "distinct [0..<(6::nat)]"
  by auto

lemma filter_SomeD:
  assumes "FTNoIR_Filter_filter delta_RC noise_RC s clk input output st0 = Some (st', out')"
  shows "\<exists>da na.
           ewma_alpha (sample_dt clk input (initialise clk input st0)) delta_RC = Some da
         \<and> ewma_alpha (sample_dt clk input (initialise clk input st0)) noise_RC = Some na
         \<and> (\<forall>i<6. axis_step da na (filter_dt clk (initialise clk input st0)) (kSmoothingScaleCurve s)
                      (kMinSmoothing s) (max_smoothing s) i (input i)
                      (last_output (initialise clk input st0) i)
                      (last_delta (initialise clk input st0) i)
                      (last_noise (initialise clk input st0) i)
                    = Some (last_output st' i, last_delta st' i, last_noise st' i)
                  \<and> out' i = last_output st' i)"
    and "first_run st' = first_run (initialise clk input st0)"
proof -
  let ?st = "initialise clk input st0"
  from assms obtain da na where
    a: "ewma_alpha (sample_dt clk input ?st) delta_RC = Some da"
       "ewma_alpha (sample_dt clk input ?st) noise_RC = Some na"
    and loop: "for_axes (filter_axis da na (filter_dt clk ?st) (kSmoothingScaleCurve s)
                 (kMinSmoothing s) (max_smoothing s) input) [0..<6]
                 (restart_timers clk (new_sample ?st input) ?st, output) = Some (st', out')"
    by (auto simp: FTNoIR_Filter_filter_def Let_def split: option.splits)
  note r = for_axes_filter_axis [OF axes_set(2) loop]
  show "\<exists>da na.
           ewma_alpha (sample_dt clk input ?st) delta_RC = Some da
         \<and> ewma_alpha (sample_dt clk input ?st) noise_RC = Some na
         \<and> (\<forall>i<6. axis_step da na (filter_dt clk ?st) (kSmoothingScaleCurve s)
                      (kMinSmoothing s) (max_smoothing s) i (input i)
                      (last_output ?st i) (last_delta ?st i) (last_noise ?st i)
                    = Some (last_output st' i, last_delta st' i, last_noise st' i)
                  \<and> out' i = last_output st' i)"
    using a r by (intro exI [of _ da] exI [of _ na]) simp
  show "first_run st' = first_run ?st" using r by simp
qed

lemma filter_total:
  assumes "ewma_alpha (sample_dt clk input (initialise clk input st0)) delta_RC = Some da"
    and "ewma_alpha (sample_dt clk input (initialise clk input st0)) noise_RC = Some na"
    and "\<forall>i<6. axis_step da na (filter_dt clk (initialise clk input st0)) (kSmoothingScaleCurve s)
                      (kMinSmoothing s) (max_smoothing s) i (input i)
                      (last_output (initialise clk input st0) i)
                      (last_delta (initialise clk input st0) i)
                      (last_noise (initialise clk input st0) i) \<noteq> None"
  shows "\<exists>st' out'. FTNoIR_Filter_filter delta_RC noise_RC s clk input output st0 = Some (st', out')"
proof -
  let ?st = "initialise clk input st0"
  have "\<exists>r. for_axes (filter_axis da na (filter_dt clk ?st) (kSmoothingScaleCurve s)
                 (kMinSmoothing s) (max_smoothing s) input) [0..<6]
                 (restart_timers clk (new_sample ?st input) ?st, output) = Some r"
    using assms(3) by (intro for_axes_filter_axis_total) simp_all
  then show ?thesis
    using assms(1,2) by (auto simp: FTNoIR_Filter_filter_def Let_def)
qed

subsection \<open>One axis, the first run and the result of an invocation\<close>

lemma axis_step_frozen:
  assumes "axis_step 0 0 dt_f e mn mx i x lo ld0 ln0 = Some (out_i, ld, ln')"
  shows "ld = ld0" "ln' = ln0"
  using axis_step_SomeD(1,2) [OF assms] by simp_all


lemma axis_step_noise_nonneg:
  assumes "axis_step da na dt_f e mn mx i x lo ld0 ln0 = Some (out_i, ld, ln')"
    and "0 \<le> na" "na \<le> 1" "0 \<le> ln0"
  shows "0 \<le> ln'"
proof -
  have "ln' = na * (ld * ld) + (1 - na) * ln0" using axis_step_SomeD(2) [OF assms(1)] .
  moreover have "0 \<le> na * (ld * ld)" using assms(2) by simp
  moreover have "0 \<le> (1 - na) * ln0" using assms(3,4) by simp
  ultimately show ?thesis by linarith
qed

lemma initialise_first_run:
  assumes "first_run st0"
  shows "\<not> first_run (initialise clk v st0)"
    and "i < 6 \<Longrightarrow> last_output (initialise clk v st0) i = v i"
    and "i < 6 \<Longrightarrow> last_delta (initialise clk v st0) i = 0"
    and "i < 6 \<Longrightarrow> last_noise (initialise clk v st0) i = 0"
    and "filter_timer (initialise clk v st0) = start (t_init_filter clk) (filter_timer st0)"
    and "sample_timer (initialise clk v st0) = start (t_init_sample clk) (sample_timer st0)"
  using assms by (simp_all add: initialise_def fold_init_axis)

lemma initialise_not_first_run: "\<not> first_run st0 \<Longrightarrow> initialise clk v st0 = st0"
  by (simp add: initialise_def)

lemma first_run_initialise [simp]: "\<not> first_run (initialise clk v st0)"
  by (cases "first_run st0") (simp_all add: initialise_first_run(1) initialise_not_first_run)

lemma not_new_sample_same: "\<forall>i<6. input i = last_output st i \<Longrightarrow> \<not> new_sample st input"
  by (simp add: new_sample_iff)

lemma sample_dt_no_change: "\<not> new_sample st input \<Longrightarrow> sample_dt clk input st = 0"
  by (simp add: sample_dt_def)

lemma filter_returns:
  assumes "0 < delta_RC" "0 < noise_RC"
    and "0 \<le> sample_dt clk input (initialise clk input st0)"
    and "0 \<le> filter_dt clk (initialise clk input st0)"
    and "0 \<le> kSmoothingScaleCurve s" "0 < kMinSmoothing s"
  shows "\<exists>st' out'. FTNoIR_Filter_filter delta_RC noise_RC s clk input output st0 = Some (st', out')"
proof -
  obtain da where da: "ewma_alpha (sample_dt clk input (initialise clk input st0)) delta_RC = Some da"
    using ewma_alpha_range [OF assms(3,1)] by blast
  obtain na where na: "ewma_alpha (sample_dt clk input (initialise clk input st0)) noise_RC = Some na"
    using ewma_alpha_range [OF assms(3,2)] by blast
  have "kMinSmoothing s \<le> max_smoothing s" by (simp add: max_smoothing_def)
  then show ?thesis
    using assms(4,5,6) by (intro filter_total [OF da na] allI impI axis_step_total) simp_all
qed

lemma axis_step_total_weak:
  assumes "i < 6" "0 \<le> e" "mn \<le> mx" "0 < dt_f + c ! i * mn"
  shows "axis_step da na dt_f e mn mx i x lo ld0 ln0 \<noteq> None"
proof -
  define ld where "ld = da * (x - lo) + (1 - da) * ld0"
  define ln' where "ln' = na * (ld * ld) + (1 - na) * ln0"
  obtain rc where rc: "axis_RC e mn mx i (ld * ld) ln' = Some rc" "c ! i * mn \<le> rc"
    using axis_RC_bounds [OF assms(1,2,3), of ld ln'] by auto
  have "dt_f + rc \<noteq> 0" using rc(2) assms(4) by linarith
  then show ?thesis
    using rc(1) by (simp add: axis_step_def Let_def ld_def ln'_def ewma_alpha_def ddiv_def)
qed

lemma ewma_alpha_zero_dt: "ewma_alpha 0 rc = Some a \<Longrightarrow> a = 0"
  by (auto simp: ewma_alpha_def ddiv_def split: if_splits)

lemma filter_returns_frozen:
  assumes "\<not> new_sample (initialise clk input st0) input"
    and "delta_RC \<noteq> 0" "noise_RC \<noteq> 0"
    and "0 \<le> kSmoothingScaleCurve s" "0 < kMinSmoothing s"
    and "0 \<le> filter_dt clk (initialise clk input st0)"
  shows "\<exists>st' out'. FTNoIR_Filter_filter delta_RC noise_RC s clk input output st0 = Some (st', out')"
proof -
  have dt0: "sample_dt clk input (initialise clk input st0) = 0"
    using assms(1) by (rule sample_dt_no_change)
  have da: "ewma_alpha (sample_dt clk input (initialise clk input st0)) delta_RC = Some 0"
    and na: "ewma_alpha (sample_dt clk input (initialise clk input st0)) noise_RC = Some 0"
    using assms(2,3) by (simp_all add: dt0 ewma_alpha_zero)
  have "kMinSmoothing s \<le> max_smoothing s" by (simp add: max_smoothing_def)
  then show ?thesis
    using assms(4,5,6) by (intro filter_total [OF da na] allI impI axis_step_total) simp_all
qed

lemma filter_frozen:
  assumes "\<not> new_sample (initialise clk input st0) input"
    and "FTNoIR_Filter_filter delta_RC noise_RC s clk input output st0 = Some (st', out')"
    and "i < 6"
  shows "last_delta st' i = last_delta (initialise clk input st0) i"
    and "last_noise st' i = last_noise (initialise clk input st0) i"
    and "\<exists>dt_f. axis_step 0 0 dt_f (kSmoothingScaleCurve s) (kMinSmoothing s) (max_smoothing s) i
           (input i) (last_output (initialise clk input st0) i)
           (last_delta (initialise clk input st0) i) (last_noise (initialise clk input st0) i)
         = Some (last_output st' i, last_delta st' i, last_noise st' i)"
    and "out' i = last_output st' i"
proof -
  let ?st = "initialise clk input st0"
  have dt0: "sample_dt clk input ?st = 0" using assms(1) by (rule sample_dt_no_change)
  from filter_SomeD(1) [OF assms(2)] obtain da na where
    da: "ewma_alpha (sample_dt clk input ?st) delta_RC = Some da"
    and na: "ewma_alpha (sample_dt clk input ?st) noise_RC = Some na"
    and ax: "axis_step da na (filter_dt clk ?st) (kSmoothingScaleCurve s) (kMinSmoothing s)
               (max_smoothing s) i (input i) (last_output ?st i) (last_delta ?st i) (last_noise ?st i)
             = Some (last_output st' i, last_delta st' i, last_noise st' i)"
    and out: "out' i = last_output st' i"
    using assms(3) by blast
  have z: "da = 0" "na = 0"
    using da na by (simp_all add: dt0 ewma_alpha_zero_dt)
  note ax0 = ax [unfolded z]
  show "last_delta st' i = last_delta ?st i" "last_noise st' i = last_noise ?st i"
    using axis_step_frozen [OF ax0] by simp_all
  show "\<exists>dt_f. axis_step 0 0 dt_f (kSmoothingScaleCurve s) (kMinSmoothing s) (max_smoothing s) i
           (input i) (last_output ?st i) (last_delta ?st i) (last_noise ?st i)
         = Some (last_output st' i, last_delta st' i, last_noise st' i)"
    using ax0 by blast
  show "out' i = last_output st' i" by (rule out)
qed

subsection \<open>The weights and the degenerate settings in an invocation\<close>

lemma filter_axis_weights:
  assumes "FTNoIR_Filter_filter delta_RC noise_RC s clk input output st0 = Some (st', out')"
    and "i < 6"
  shows "\<exists>nn sm alpha.
           norm_noise (last_delta st' i * last_delta st' i) (last_noise st' i) = Some nn
         \<and> smoothing nn (kSmoothingScaleCurve s) = Some sm
         \<and> ewma_alpha (filter_dt clk (initialise clk input st0))
               (c ! i * (kMinSmoothing s + sm * (max_smoothing s - kMinSmoothing s))) = Some alpha
         \<and> out' i = alpha * input i + (1 - alpha) * last_output (initialise clk input st0) i
         \<and> last_output st' i = out' i"
proof -
  let ?st = "initialise clk input st0"
  from filter_SomeD(1) [OF assms(1)] assms(2) obtain da na where
    ax: "axis_step da na (filter_dt clk ?st) (kSmoothingScaleCurve s) (kMinSmoothing s)
           (max_smoothing s) i (input i) (last_output ?st i) (last_delta ?st i) (last_noise ?st i)
         = Some (last_output st' i, last_delta st' i, last_noise st' i)"
    and out: "out' i = last_output st' i"
    by blast
  from axis_step_SomeD(3) [OF ax] obtain rc alpha where
    rc: "axis_RC (kSmoothingScaleCurve s) (kMinSmoothing s) (max_smoothing s) i
           (last_delta st' i * last_delta st' i) (last_noise st' i) = Some rc"
    and al: "ewma_alpha (filter_dt clk ?st) rc = Some alpha"
    and o: "last_output st' i = alpha * input i + (1 - alpha) * last_output ?st i"
    by blast
  from rc obtain nn sm where
    nn: "norm_noise (last_delta st' i * last_delta st' i) (last_noise st' i) = Some nn"
    and sm: "smoothing nn (kSmoothingScaleCurve s) = Some sm"
    and r: "rc = RC i (kMinSmoothing s) (max_smoothing s) sm"
    by (auto simp: axis_RC_def split: option.splits)
  show ?thesis
    using nn sm al o out unfolding r RC_def by auto
qed



lemma max_smoothing_update [simp]:
  "max_smoothing (s\<lparr>kMaxSmoothing := max (kMinSmoothing s) (kMaxSmoothing s)\<rparr>) = max_smoothing s"
  by (simp add: max_smoothing_def)

subsection \<open>Rounding: error, sign, monotonicity, idempotence, evaluation\<close>

lemma round_even_cases: "round_even x = \<lfloor>x\<rfloor> \<or> round_even x = \<lfloor>x\<rfloor> + 1"
  by (simp add: round_even_def Let_def)

lemma round_even_error: "\<bar>of_int (round_even x) - x\<bar> \<le> 1 / 2"
proof -
  have "of_int \<lfloor>x\<rfloor> \<le> x" "x < of_int \<lfloor>x\<rfloor> + 1" by linarith+
  then show ?thesis
    by (auto simp: round_even_def Let_def abs_le_iff)
qed

lemma round_even_of_int [simp]: "round_even (of_int n) = n"
  by (simp add: round_even_def)

lemma round_even_mono:
  assumes "x \<le> y"
  shows "round_even x \<le> round_even y"
proof (cases "\<lfloor>x\<rfloor> = \<lfloor>y\<rfloor>")
  case True
  then show ?thesis
    using assms by (auto simp: round_even_def Let_def)
next
  case False
  with assms have "\<lfloor>x\<rfloor> < \<lfloor>y\<rfloor>" using floor_mono [of x y] by linarith
  moreover have "round_even x \<le> \<lfloor>x\<rfloor> + 1" using round_even_cases [of x] by linarith
  moreover have "\<lfloor>y\<rfloor> \<le> round_even y" using round_even_cases [of y] by linarith
  ultimately show ?thesis by linarith
qed

lemma round_even_ge: "of_int n \<le> x \<Longrightarrow> n \<le> round_even x"
  using round_even_mono [of "of_int n" x] by simp

lemma round_even_le: "x \<le> of_int n \<Longrightarrow> round_even x \<le> n"
  using round_even_mono [of x "of_int n"] by simp

lemma binade:
  assumes "0 < a"
  shows "2 ^ 52 \<le> a / 2 powr of_int (\<lfloor>log 2 a\<rfloor> - 52)"
    and "a / 2 powr of_int (\<lfloor>log 2 a\<rfloor> - 52) < 2 ^ 53"
proof -
  let ?L = "log 2 a"
  have a: "a = 2 powr ?L" using assms by simp
  have q: "a / 2 powr of_int (\<lfloor>?L\<rfloor> - 52) = 2 powr (?L - of_int \<lfloor>?L\<rfloor> + 52)"
    by (subst a) (simp add: powr_diff [symmetric] algebra_simps)
  have "52 \<le> ?L - of_int \<lfloor>?L\<rfloor> + 52" "?L - of_int \<lfloor>?L\<rfloor> + 52 < 53" by linarith+
  then have "(2::real) powr 52 \<le> 2 powr (?L - of_int \<lfloor>?L\<rfloor> + 52)"
    "2 powr (?L - of_int \<lfloor>?L\<rfloor> + 52) < (2::real) powr 53"
    by (simp_all only: powr_le_cancel_iff powr_less_cancel_iff one_less_numeral_iff
        semiring_norm)
  moreover have "(2::real) powr 52 = 2 ^ 52" "(2::real) powr 53 = 2 ^ 53" by simp_all
  ultimately show "2 ^ 52 \<le> a / 2 powr of_int (\<lfloor>log 2 a\<rfloor> - 52)"
    and "a / 2 powr of_int (\<lfloor>log 2 a\<rfloor> - 52) < 2 ^ 53"
    unfolding q by linarith+
qed

lemma binade_unique:
  assumes "0 < a" "2 ^ 52 \<le> a / 2 powr of_int e" "a / 2 powr of_int e < 2 ^ 53"
  shows "\<lfloor>log 2 a\<rfloor> - 52 = e"
proof -
  have "2 powr (52 + of_int e) \<le> a"
    using assms(2) by (simp add: powr_add pos_le_divide_eq mult.commute)
  then have l: "52 + of_int e \<le> log 2 a"
    using assms(1) by (simp add: le_log_iff)
  have "a < 2 powr (53 + of_int e)"
    using assms(3) by (simp add: powr_add pos_divide_less_eq mult.commute)
  then have u: "log 2 a < 53 + of_int e"
    using assms(1) by (simp add: log_less_iff)
  have "\<lfloor>log 2 a\<rfloor> = 52 + e"
    using l u by (intro floor_unique) simp_all
  then show ?thesis by simp
qed

lemma round_even_numeral [simp]: "round_even (numeral n) = numeral n"
  using round_even_of_int [of "numeral n"] by simp

lemma powr2_succ: "(2::real) powr (x + 1) = 2 * 2 powr x"
  by (simp add: powr_add)

lemma rnd_0 [simp]: "rnd 0 = 0"
  by (simp add: rnd_def)

lemma rnd_minus: "rnd (- x) = - rnd x"
  by (simp add: rnd_def Let_def sgn_minus)

lemma rnd_pos_unique:
  assumes "0 < a" "2 ^ 52 \<le> a / 2 powr of_int e" "a / 2 powr of_int e < 2 ^ 53"
  shows "rnd a = of_int (round_even (a / 2 powr of_int e)) * 2 powr of_int e"
proof -
  have "\<lfloor>log 2 a\<rfloor> - 52 = e" using assms by (rule binade_unique)
  then show ?thesis using assms(1) by (simp add: rnd_def Let_def)
qed

lemma rnd_pos_ex:
  assumes "0 < a"
  obtains e where "2 ^ 52 \<le> a / 2 powr of_int e" "a / 2 powr of_int e < 2 ^ 53"
    "rnd a = of_int (round_even (a / 2 powr of_int e)) * 2 powr of_int e"
    "e = \<lfloor>log 2 a\<rfloor> - 52"
proof -
  define e where "e = \<lfloor>log 2 a\<rfloor> - 52"
  have b: "2 ^ 52 \<le> a / 2 powr of_int e" "a / 2 powr of_int e < 2 ^ 53"
    unfolding e_def using binade [OF assms] by blast+
  from rnd_pos_unique [OF assms b] b e_def that show thesis by blast
qed

lemma round_even_binade:
  assumes "2 ^ 52 \<le> m" "m < 2 ^ 53"
  shows "2 ^ 52 \<le> round_even m" "round_even m \<le> 2 ^ 53"
proof -
  have "of_int (2 ^ 52) \<le> m" using assms(1) by simp
  then show "2 ^ 52 \<le> round_even m" by (rule round_even_ge)
  have "m \<le> of_int (2 ^ 53)" using assms(2) by simp
  then show "round_even m \<le> 2 ^ 53" by (rule round_even_le)
qed

lemma of_int_binade:
  assumes "2 ^ 52 \<le> n" "n \<le> 2 ^ 53"
  shows "(2 ^ 52 :: real) \<le> of_int n" "of_int n \<le> (2 ^ 53 :: real)"
proof -
  have "(of_int (2 ^ 52) :: real) \<le> of_int n" using assms(1) by (simp only: of_int_le_iff)
  then show "(2 ^ 52 :: real) \<le> of_int n" by simp
  have "(of_int n :: real) \<le> of_int (2 ^ 53)" using assms(2) by (simp only: of_int_le_iff)
  then show "of_int n \<le> (2 ^ 53 :: real)" by simp
qed

lemma rnd_pos_bounds:
  assumes "0 < a" "2 ^ 52 \<le> a / 2 powr of_int e" "a / 2 powr of_int e < 2 ^ 53"
  shows "2 ^ 52 * 2 powr of_int e \<le> rnd a" "rnd a \<le> 2 ^ 53 * 2 powr of_int e"
proof -
  let ?n = "round_even (a / 2 powr of_int e)"
  note n = of_int_binade [OF round_even_binade [OF assms(2,3)]]
  have p: "0 \<le> (2::real) powr of_int e" by simp
  show "2 ^ 52 * 2 powr of_int e \<le> rnd a"
    unfolding rnd_pos_unique [OF assms] using n(1) p by (rule mult_right_mono)
  show "rnd a \<le> 2 ^ 53 * 2 powr of_int e"
    unfolding rnd_pos_unique [OF assms] using n(2) p by (rule mult_right_mono)
qed

lemma rnd_pos: 
  assumes "0 < a"
  shows "0 < rnd a"
proof -
  obtain e where e: "2 ^ 52 \<le> a / 2 powr of_int e" "a / 2 powr of_int e < 2 ^ 53"
    using rnd_pos_ex [OF assms] by blast
  have "0 < (2 ^ 52 :: real) * 2 powr of_int e" by simp
  with rnd_pos_bounds(1) [OF assms e] show ?thesis by linarith
qed

lemma rnd_neg: "a < 0 \<Longrightarrow> rnd a < 0"
  using rnd_pos [of "- a"] by (simp add: rnd_minus)

lemma rnd_nonneg: "0 \<le> a \<Longrightarrow> 0 \<le> rnd a"
  using rnd_pos [of a] by (cases "a = 0") auto

lemma rnd_eq_0_iff [simp]: "rnd x = 0 \<longleftrightarrow> x = 0"
  using rnd_pos [of x] rnd_neg [of x] by (cases "x = 0"; cases "0 < x") auto

lemma rnd_error_pos:
  assumes "0 < a"
  shows "\<bar>rnd a - a\<bar> \<le> a / 2 ^ 53"
proof -
  obtain e where e: "2 ^ 52 \<le> a / 2 powr of_int e" "a / 2 powr of_int e < 2 ^ 53"
    and r: "rnd a = of_int (round_even (a / 2 powr of_int e)) * 2 powr of_int e"
    using rnd_pos_ex [OF assms] by blast
  define p :: real where "p = 2 powr of_int e"
  define m where "m = a / p"
  have p: "0 < p" by (simp add: p_def)
  have a: "a = m * p" using p by (simp add: m_def)
  have "\<bar>of_int (round_even m) - m\<bar> \<le> 1 / 2" by (rule round_even_error)
  then have "\<bar>of_int (round_even m) - m\<bar> * p \<le> 1 / 2 * p"
    using p by (intro mult_right_mono) simp_all
  moreover have "\<bar>of_int (round_even m) - m\<bar> * p = \<bar>rnd a - a\<bar>"
  proof -
    have "\<bar>of_int (round_even m) - m\<bar> * p = \<bar>(of_int (round_even m) - m) * p\<bar>"
      using p by (simp add: abs_mult)
    also have "(of_int (round_even m) - m) * p = rnd a - a"
      using r unfolding p_def [symmetric] m_def [symmetric] by (simp add: a algebra_simps)
    finally show ?thesis .
  qed
  moreover have "2 ^ 52 * p \<le> a"
    using e(1) p unfolding p_def [symmetric] by (simp add: pos_le_divide_eq)
  ultimately show ?thesis by simp
qed

lemma rnd_error: "\<bar>rnd x - x\<bar> \<le> \<bar>x\<bar> / 2 ^ 53"
proof (cases "0 < x")
  case True
  then show ?thesis using rnd_error_pos [of x] by simp
next
  case False
  show ?thesis
  proof (cases "x = 0")
    case True
    then show ?thesis by simp
  next
    case False
    with \<open>\<not> 0 < x\<close> have "0 < - x" by simp
    from rnd_error_pos [OF this] show ?thesis by (simp add: rnd_minus abs_minus_commute)
  qed
qed

lemma rnd_mono_pos:
  assumes "0 < a" "a \<le> b"
  shows "rnd a \<le> rnd b"
proof -
  have b: "0 < b" using assms by simp
  obtain ea where ea: "2 ^ 52 \<le> a / 2 powr of_int ea" "a / 2 powr of_int ea < 2 ^ 53"
    and ea_def: "ea = \<lfloor>log 2 a\<rfloor> - 52"
    using rnd_pos_ex [OF assms(1)] by blast
  obtain eb where eb: "2 ^ 52 \<le> b / 2 powr of_int eb" "b / 2 powr of_int eb < 2 ^ 53"
    and eb_def: "eb = \<lfloor>log 2 b\<rfloor> - 52"
    using rnd_pos_ex [OF b] by blast
  have "log 2 a \<le> log 2 b" using assms by simp
  then have le: "ea \<le> eb" unfolding ea_def eb_def by (simp add: floor_mono)
  show ?thesis
  proof (cases "ea = eb")
    case True
    have "a / 2 powr of_int ea \<le> b / 2 powr of_int ea"
      using assms(2) by (simp add: divide_right_mono)
    then have "round_even (a / 2 powr of_int ea) \<le> round_even (b / 2 powr of_int ea)"
      by (rule round_even_mono)
    then have "(of_int (round_even (a / 2 powr of_int ea)) :: real)
                 \<le> of_int (round_even (b / 2 powr of_int ea))" by (simp only: of_int_le_iff)
    then have "of_int (round_even (a / 2 powr of_int ea)) * (2::real) powr of_int ea
                 \<le> of_int (round_even (b / 2 powr of_int ea)) * 2 powr of_int ea"
      by (rule mult_right_mono) simp
    then show ?thesis
      using rnd_pos_unique [OF assms(1) ea] rnd_pos_unique [OF b eb] True by simp
  next
    case False
    with le have "ea + 1 \<le> eb" by simp
    then have "(of_int ea :: real) + 1 \<le> of_int eb" by linarith
    then have "(2::real) powr (of_int ea + 1) \<le> 2 powr of_int eb"
      by (simp only: powr_le_cancel_iff one_less_numeral_iff semiring_norm)
    then have "2 ^ 53 * (2::real) powr of_int ea \<le> 2 ^ 52 * 2 powr of_int eb"
      unfolding powr2_succ by simp
    with rnd_pos_bounds(2) [OF assms(1) ea] rnd_pos_bounds(1) [OF b eb] show ?thesis
      by linarith
  qed
qed

lemma rnd_mono:
  assumes "x \<le> y"
  shows "rnd x \<le> rnd y"
proof -
  consider "0 < x" | "x \<le> 0" "0 \<le> y" | "y < 0" using assms by linarith
  then show ?thesis
  proof cases
    case 1
    then show ?thesis using assms by (rule rnd_mono_pos)
  next
    case 2
    have "rnd x \<le> 0" using 2(1) rnd_neg [of x] by (cases "x = 0") auto
    moreover have "0 \<le> rnd y" using 2(2) by (rule rnd_nonneg)
    ultimately show ?thesis by simp
  next
    case 3
    then have "0 < - y" "- y \<le> - x" using assms by simp_all
    from rnd_mono_pos [OF this] show ?thesis by (simp add: rnd_minus)
  qed
qed

lemma rnd_exact_pos:
  assumes "2 ^ 52 \<le> n" "n \<le> 2 ^ 53"
  shows "rnd (of_int n * 2 powr of_int e) = of_int n * 2 powr of_int e"
proof -
  define a :: real where "a = of_int n * 2 powr of_int e"
  note n = of_int_binade [OF assms]
  have a: "0 < a" using n by (simp add: a_def)
  show ?thesis
  proof (cases "n = 2 ^ 53")
    case False
    with assms have "n < 2 ^ 53" by simp
    then have "(of_int n :: real) < of_int (2 ^ 53)" by (simp only: of_int_less_iff)
    then have lt: "of_int n < (2 ^ 53 :: real)" by simp
    have q: "a / 2 powr of_int e = of_int n" by (simp add: a_def)
    have "rnd a = of_int (round_even (a / 2 powr of_int e)) * 2 powr of_int e"
      using n(1) lt by (intro rnd_pos_unique [OF a]) (simp_all only: q)
    then show ?thesis unfolding q by (simp add: a_def)
  next
    case True
    define p :: real where "p = 2 powr of_int e"
    have p: "0 < p" by (simp add: p_def)
    have p2: "2 powr of_int (e + 1) = 2 * p" by (simp add: p_def powr_add)
    have eq: "a = 2 ^ 53 * p" by (simp add: a_def True p_def)
    have q: "a / 2 powr of_int (e + 1) = 2 ^ 52"
      unfolding p2 eq using p by simp
    have b: "(2 ^ 52 :: real) \<le> 2 ^ 52" "(2 ^ 52 :: real) < 2 ^ 53" by simp_all
    have "rnd a = of_int (round_even (a / 2 powr of_int (e + 1))) * 2 powr of_int (e + 1)"
      using b by (intro rnd_pos_unique [OF a]) (simp_all only: q)
    also have "\<dots> = 2 ^ 52 * (2 * p)" by (subst q, subst p2) simp
    also have "\<dots> = a" unfolding eq by simp
    finally show ?thesis unfolding a_def .
  qed
qed

lemma rnd_idem [simp]: "rnd (rnd x) = rnd x"
proof -
  have pos: "rnd (rnd a) = rnd a" if a: "0 < a" for a
  proof -
    obtain e where e: "2 ^ 52 \<le> a / 2 powr of_int e" "a / 2 powr of_int e < 2 ^ 53"
      and r: "rnd a = of_int (round_even (a / 2 powr of_int e)) * 2 powr of_int e"
      using rnd_pos_ex [OF a] by blast
    from rnd_exact_pos [OF round_even_binade [OF e], of e] show ?thesis
      unfolding r .
  qed
  consider "0 < x" | "x = 0" | "x < 0" by linarith
  then show ?thesis
  proof cases
    case 1
    then show ?thesis by (rule pos)
  next
    case 2
    then show ?thesis by simp
  next
    case 3
    then have "0 < - x" by simp
    from pos [OF this] show ?thesis by (simp add: rnd_minus)
  qed
qed

lemma rnd_eval:
  assumes "0 < a" "2 ^ 52 \<le> a * 2 ^ k" "a * 2 ^ k < 2 ^ 53"
  shows "rnd a = of_int (round_even (a * 2 ^ k)) / 2 ^ k"
proof -
  have p: "2 powr of_int (- int k) = 1 / (2 ^ k :: real)"
    by (simp add: powr_minus powr_realpow field_simps)
  have q: "a / 2 powr of_int (- int k) = a * 2 ^ k"
    unfolding p by simp
  have "rnd a = of_int (round_even (a / 2 powr of_int (- int k))) * 2 powr of_int (- int k)"
    using assms(2,3) by (intro rnd_pos_unique [OF assms(1)]) (simp_all only: q)
  then show ?thesis unfolding q p by simp
qed

lemma rnd_1 [simp]: "rnd 1 = 1"
  by (simp add: rnd_eval [where k = 52])

lemma rnd_upper: "rnd x \<le> x + \<bar>x\<bar> / 2 ^ 53"
  using rnd_error [of x] by linarith

lemma rnd_lower: "x - \<bar>x\<bar> / 2 ^ 53 \<le> rnd x"
  using rnd_error [of x] by linarith

lemma rnd_abs_le: "\<bar>rnd x\<bar> \<le> \<bar>x\<bar> + \<bar>x\<bar> / 2 ^ 53"
  using rnd_error [of x] by linarith

lemma rnd_unit: "0 \<le> x \<Longrightarrow> x \<le> 1 \<Longrightarrow> 0 \<le> rnd x \<and> rnd x \<le> 1"
  using rnd_mono [of 0 x] rnd_mono [of x 1] by simp

lemma rnd_half [simp]: "rnd (1 / 2) = 1 / 2"
  by (simp add: rnd_eval [where k = 53])

lemma rnd_3_100: "rnd (3 / 100) = 1080863910568919 / 36028797018963968"
  by (simp add: rnd_eval [where k = 58] round_even_def)

lemma rnd_3_10: "rnd (3 / 10) = 5404319552844595 / 18014398509481984"
  by (simp add: rnd_eval [where k = 54] round_even_def)

subsection \<open>The binary64 embedding: one axis\<close>

lemma d_consts_pos: "0 < d_1e_9" "0 < d_1e_4" "0 < d_1e_10"
  by (simp_all add: d_1e_9_def d_1e_4_def d_1e_10_def rnd_pos)

lemma ewma_alpha_b64_zero: "rc \<noteq> 0 \<Longrightarrow> ewma_alpha_b64 0 rc = Some 0"
  by (simp add: ewma_alpha_b64_def ddiv_def)

lemma ewma_alpha_b64_zero_dt: "ewma_alpha_b64 0 rc = Some a \<Longrightarrow> a = 0"
  by (auto simp: ewma_alpha_b64_def ddiv_def split: if_splits)

lemma ewma_alpha_b64_range:
  assumes "0 \<le> d" "rnd d = d" "0 < rc"
  shows "\<exists>a. ewma_alpha_b64 d rc = Some a \<and> 0 \<le> a \<and> a \<le> 1"
proof -
  have s: "0 < rnd (d + rc)" using assms(1,3) by (intro rnd_pos) simp
  have "rnd d \<le> rnd (d + rc)" using assms(3) by (intro rnd_mono) simp
  then have "d \<le> rnd (d + rc)" by (simp add: assms(2))
  then have "0 \<le> d / rnd (d + rc)" "d / rnd (d + rc) \<le> 1"
    using s assms(1) by simp_all
  moreover have "d + rc \<noteq> 0" using assms(1,3) by simp
  ultimately show ?thesis
    using rnd_unit [of "d / rnd (d + rc)"] by (simp add: ewma_alpha_b64_def ddiv_def)
qed

lemma norm_noise_b64_range:
  assumes "0 \<le> noise"
  shows "\<exists>nn. norm_noise_b64 noise lnoise = Some nn \<and> 0 \<le> nn \<and> nn \<le> 1"
proof (cases "lnoise < d_1e_10")
  case True
  then show ?thesis by (simp add: norm_noise_b64_def)
next
  case False
  then have "0 < 9 * lnoise" using d_consts_pos(3) by simp
  then have d: "0 < rnd (9 * lnoise)" by (rule rnd_pos)
  then have "0 \<le> noise / rnd (9 * lnoise)" using assms by simp
  then have "0 \<le> rnd (noise / rnd (9 * lnoise))" by (rule rnd_nonneg)
  moreover have "lnoise \<noteq> 0" using \<open>0 < 9 * lnoise\<close> by simp
  ultimately show ?thesis
    using False by (simp add: norm_noise_b64_def ddiv_def)
qed

lemma smoothing_b64_range:
  assumes "0 \<le> nn" "nn \<le> 1" "0 \<le> e"
  shows "\<exists>sm. smoothing_b64 nn e = Some sm \<and> 0 \<le> sm \<and> sm \<le> 1"
proof -
  from std_pow_unit [OF assms] obtain p where p: "std_pow nn e = Some p" "0 \<le> p" "p \<le> 1"
    by blast
  from rnd_unit [OF p(2,3)] have "0 \<le> 1 - rnd p" "1 - rnd p \<le> 1" by simp_all
  from rnd_unit [OF this] p(1) show ?thesis by (simp add: smoothing_b64_def)
qed

lemma RC_b64_lower:
  assumes "i < 6" "0 \<le> sm" "min_s \<le> max_s" "rnd min_s = min_s"
  shows "rnd (c ! i * min_s) \<le> RC_b64 i min_s max_s sm"
proof -
  have w: "0 < c ! i" using assms(1) by (rule c_pos)
  have "0 \<le> rnd (max_s - min_s)" using assms(3) by (intro rnd_nonneg) simp
  then have "0 \<le> sm * rnd (max_s - min_s)" using assms(2) by simp
  then have "0 \<le> rnd (sm * rnd (max_s - min_s))" by (rule rnd_nonneg)
  then have "rnd min_s \<le> rnd (min_s + rnd (sm * rnd (max_s - min_s)))"
    by (intro rnd_mono) simp
  then have "min_s \<le> rnd (min_s + rnd (sm * rnd (max_s - min_s)))"
    by (simp add: assms(4))
  then have "c ! i * min_s \<le> c ! i * rnd (min_s + rnd (sm * rnd (max_s - min_s)))"
    using w by simp
  then show ?thesis unfolding RC_b64_def by (rule rnd_mono)
qed

lemma RC_b64_upper:
  assumes "i < 6" "0 \<le> sm" "sm \<le> 1" "min_s \<le> max_s"
  shows "RC_b64 i min_s max_s sm \<le> c ! i * max_s + c ! i * max \<bar>min_s\<bar> \<bar>max_s\<bar> / 2 ^ 50"
proof -
  define w where "w = c ! i"
  define M where "M = max \<bar>min_s\<bar> \<bar>max_s\<bar>"
  define E where "E = max_s - min_s"
  define t1 where "t1 = rnd E"
  define t2 where "t2 = rnd (sm * t1)"
  define v where "v = min_s + t2"
  define t3 where "t3 = rnd v"
  define u :: real where "u = 1 / 2 ^ 53"
  have w: "0 < w" unfolding w_def using assms(1) by (rule c_pos)
  have M: "0 \<le> M" "\<bar>min_s\<bar> \<le> M" "\<bar>max_s\<bar> \<le> M" by (simp_all add: M_def)
  have u: "0 < u" "u \<le> 1 / 8" by (simp_all add: u_def)
  have E: "0 \<le> E" "E \<le> 2 * M" using assms(4) M by (simp_all add: E_def)
  have t1: "0 \<le> t1" "t1 \<le> E + E * u"
    using E(1) rnd_nonneg [of E] rnd_upper [of E] by (simp_all add: t1_def u_def)
  have "0 \<le> sm * t1" "sm * t1 \<le> t1"
    using assms(2,3) t1(1) by (simp_all add: mult_left_le_one_le)
  then have t2: "0 \<le> t2" "t2 \<le> t1"
    using rnd_nonneg [of "sm * t1"] rnd_mono [of "sm * t1" t1]
    by (simp_all add: t2_def t1_def)
  have Eu: "E * u \<le> 2 * M * u" using E(2) u(1) by simp
  have Mu: "M * u \<le> M / 8" using mult_left_mono [OF u(2) M(1)] by simp
  have v: "min_s \<le> v" "v \<le> max_s + 2 * M * u"
    using t2 t1(2) Eu by (simp_all add: v_def E_def)
  have av: "\<bar>v\<bar> \<le> 2 * M" using v M Mu by linarith
  have avu: "\<bar>v\<bar> * u \<le> 2 * M * u" using av u(1) by simp
  have t3: "t3 \<le> max_s + 4 * M * u"
    using rnd_upper [of v] v(2) avu by (simp add: t3_def u_def)
  have at3: "\<bar>t3\<bar> \<le> 3 * M"
    using rnd_abs_le [of v] av avu Mu by (simp add: t3_def u_def)
  have "w * t3 \<le> w * (max_s + 4 * M * u)" using t3 w by simp
  moreover have "\<bar>w * t3\<bar> * u \<le> w * (3 * M) * u"
    using at3 w u(1) by (simp add: abs_mult)
  moreover have "rnd (w * t3) \<le> w * t3 + \<bar>w * t3\<bar> * u"
    using rnd_upper [of "w * t3"] by (simp add: u_def)
  ultimately have "rnd (w * t3) \<le> w * max_s + 7 * (w * M * u)"
    by (simp add: algebra_simps)
  moreover have "0 \<le> w * M * u" using w M(1) u(1) by simp
  ultimately have "rnd (w * t3) \<le> w * max_s + 8 * (w * M * u)" by linarith
  moreover have "8 * (w * M * u) = w * M / 2 ^ 50" by (simp add: u_def)
  ultimately show ?thesis
    unfolding RC_b64_def w_def [symmetric] E_def [symmetric] t1_def [symmetric]
      t2_def [symmetric] v_def [symmetric] t3_def [symmetric] M_def [symmetric]
    by simp
qed

lemma axis_RC_b64_bounds:
  assumes "i < 6" "0 \<le> e" "min_s \<le> max_s" "rnd min_s = min_s" "0 \<le> noise"
  shows "\<exists>rc. axis_RC_b64 e min_s max_s i noise lnoise = Some rc
           \<and> rnd (c ! i * min_s) \<le> rc
           \<and> rc \<le> c ! i * max_s + c ! i * max \<bar>min_s\<bar> \<bar>max_s\<bar> / 2 ^ 50"
proof -
  obtain nn where nn: "norm_noise_b64 noise lnoise = Some nn" "0 \<le> nn" "nn \<le> 1"
    using norm_noise_b64_range [OF assms(5), of lnoise] by auto
  obtain sm where sm: "smoothing_b64 nn e = Some sm" "0 \<le> sm" "sm \<le> 1"
    using smoothing_b64_range [OF nn(2,3) assms(2)] by auto
  show ?thesis
    using nn(1) sm(1) RC_b64_lower [OF assms(1) sm(2) assms(3,4)]
      RC_b64_upper [OF assms(1) sm(2,3) assms(3)]
    by (simp add: axis_RC_b64_def)
qed

lemma blend_b64_same:
  assumes "0 \<le> al" "al \<le> 1"
  shows "\<bar>rnd (rnd (al * x) + rnd (rnd (1 - al) * x)) - x\<bar> \<le> \<bar>x\<bar> / 2 ^ 51"
proof -
  define X where "X = \<bar>x\<bar>"
  define u :: real where "u = 1 / 2 ^ 53"
  define a1 where "a1 = rnd (al * x)"
  define b where "b = rnd (1 - al)"
  define a2 where "a2 = rnd (b * x)"
  have X: "0 \<le> X" by (simp add: X_def)
  have u: "0 < u" "u \<le> 1 / 8" by (simp_all add: u_def)
  have b: "0 \<le> b" "b \<le> 1" using rnd_unit [of "1 - al"] assms by (simp_all add: b_def)
  have e1: "\<bar>a1 - al * x\<bar> \<le> al * X * u"
    using rnd_error [of "al * x"] assms(1) by (simp add: a1_def u_def X_def abs_mult)
  have eb: "\<bar>b - (1 - al)\<bar> \<le> (1 - al) * u"
    using rnd_error [of "1 - al"] assms(2) by (simp add: b_def u_def)
  have "\<bar>a2 - b * x\<bar> \<le> b * X * u"
    using rnd_error [of "b * x"] b(1) by (simp add: a2_def u_def X_def abs_mult)
  moreover have "b * X * u \<le> 1 * X * u"
    using b(2) X u(1) by (intro mult_right_mono) simp_all
  ultimately have e2: "\<bar>a2 - b * x\<bar> \<le> X * u" by simp
  have "\<bar>(b - (1 - al)) * x\<bar> \<le> (1 - al) * u * X"
    unfolding abs_mult X_def [symmetric] using eb X by (rule mult_right_mono)
  then have e3: "\<bar>(b - (1 - al)) * x\<bar> \<le> (1 - al) * X * u" by (simp add: mult.commute mult.left_commute)
  have "a1 + a2 - x = (a1 - al * x) + (a2 - b * x) + (b - (1 - al)) * x"
    by (simp add: algebra_simps)
  then have "\<bar>a1 + a2 - x\<bar> \<le> \<bar>a1 - al * x\<bar> + \<bar>a2 - b * x\<bar> + \<bar>(b - (1 - al)) * x\<bar>"
    by linarith
  also have "\<dots> \<le> al * X * u + X * u + (1 - al) * X * u"
    using e1 e2 e3 by linarith
  also have "\<dots> = 2 * X * u" by (simp add: algebra_simps)
  finally have s: "\<bar>a1 + a2 - x\<bar> \<le> 2 * X * u" .
  have Xu: "X * u \<le> X / 8" using mult_left_mono [OF u(2) X] by simp
  have "\<bar>a1 + a2\<bar> \<le> X + 2 * X * u" using s unfolding X_def by linarith
  then have as: "\<bar>a1 + a2\<bar> \<le> 2 * X" using Xu by linarith
  have "\<bar>rnd (a1 + a2) - (a1 + a2)\<bar> \<le> \<bar>a1 + a2\<bar> * u"
    using rnd_error [of "a1 + a2"] by (simp add: u_def)
  moreover have "\<bar>a1 + a2\<bar> * u \<le> 2 * X * u" using as u(1) by simp
  ultimately have "\<bar>rnd (a1 + a2) - x\<bar> \<le> 4 * X * u" using s by linarith
  moreover have "4 * X * u = X / 2 ^ 51" by (simp add: u_def)
  ultimately show ?thesis
    unfolding a1_def [symmetric] b_def [symmetric] a2_def [symmetric] X_def [symmetric]
    by simp
qed

subsection \<open>The binary64 embedding: the loop and the invocation\<close>

lemma for_axes_store:
  assumes body: "\<And>i st out. body i (st, out) =
      (case f i (last_output st i) (last_delta st i) (last_noise st i) of
         None \<Rightarrow> None
       | Some (out_i, ld, ln') \<Rightarrow>
           Some (st\<lparr>last_output := (last_output st)(i := out_i),
                    last_delta := (last_delta st)(i := ld),
                    last_noise := (last_noise st)(i := ln')\<rparr>, out(i := out_i)))"
    and "distinct js"
    and "for_axes body js (st, out) = Some (st', out')"
  shows "(\<forall>i. (i \<in> set js \<longrightarrow>
              f i (last_output st i) (last_delta st i) (last_noise st i)
                = Some (last_output st' i, last_delta st' i, last_noise st' i)
              \<and> out' i = last_output st' i)
          \<and> (i \<notin> set js \<longrightarrow>
              last_output st' i = last_output st i \<and> last_delta st' i = last_delta st i
              \<and> last_noise st' i = last_noise st i \<and> out' i = out i))
       \<and> first_run st' = first_run st"
  using assms(2,3)
proof (induction js arbitrary: st out)
  case Nil
  then show ?case by simp
next
  case (Cons j js)
  from Cons.prems(2) obtain out_j ld ln' where
    step: "f j (last_output st j) (last_delta st j) (last_noise st j) = Some (out_j, ld, ln')"
    by (auto simp: body split: option.splits)
  define st1 where "st1 = st\<lparr>last_output := (last_output st)(j := out_j),
                             last_delta := (last_delta st)(j := ld),
                             last_noise := (last_noise st)(j := ln')\<rparr>"
  have rest: "for_axes body js (st1, out(j := out_j)) = Some (st', out')"
    using Cons.prems(2) step by (simp add: body st1_def)
  have dj: "j \<notin> set js" "distinct js" using Cons.prems(1) by auto
  note ih = Cons.IH [OF dj(2) rest]
  have ih_in: "f i (last_output st1 i) (last_delta st1 i) (last_noise st1 i)
                 = Some (last_output st' i, last_delta st' i, last_noise st' i)
               \<and> out' i = last_output st' i" if "i \<in> set js" for i
    using ih that by blast
  have ih_out: "last_output st' i = last_output st1 i \<and> last_delta st' i = last_delta st1 i
               \<and> last_noise st' i = last_noise st1 i \<and> out' i = (out(j := out_j)) i" if "i \<notin> set js" for i
    using ih that by blast
  have ih_rest: "first_run st' = first_run st1"
    using ih by blast
  have other: "last_output st1 i = last_output st i" "last_delta st1 i = last_delta st i"
    "last_noise st1 i = last_noise st i" if "i \<noteq> j" for i
    using that by (simp_all add: st1_def)
  have at_j: "last_output st1 j = out_j" "last_delta st1 j = ld" "last_noise st1 j = ln'"
    by (simp_all add: st1_def)
  have "f i (last_output st i) (last_delta st i) (last_noise st i)
          = Some (last_output st' i, last_delta st' i, last_noise st' i)
        \<and> out' i = last_output st' i" if "i \<in> set (j # js)" for i
  proof (cases "i = j")
    case True
    then show ?thesis using ih_out [OF dj(1)] step at_j by simp
  next
    case False
    with that have "i \<in> set js" by simp
    from ih_in [OF this] other [OF False] show ?thesis by simp
  qed
  moreover have "last_output st' i = last_output st i \<and> last_delta st' i = last_delta st i
        \<and> last_noise st' i = last_noise st i \<and> out' i = out i" if "i \<notin> set (j # js)" for i
  proof -
    from that have "i \<noteq> j" "i \<notin> set js" by auto
    from ih_out [OF this(2)] other [OF this(1)] this(1) show ?thesis by simp
  qed
  moreover have "first_run st' = first_run st"
    using ih_rest by (simp add: st1_def)
  ultimately show ?case by blast
qed

lemma for_axes_store_total:
  assumes body: "\<And>i st out. body i (st, out) =
      (case f i (last_output st i) (last_delta st i) (last_noise st i) of
         None \<Rightarrow> None
       | Some (out_i, ld, ln') \<Rightarrow>
           Some (st\<lparr>last_output := (last_output st)(i := out_i),
                    last_delta := (last_delta st)(i := ld),
                    last_noise := (last_noise st)(i := ln')\<rparr>, out(i := out_i)))"
    and "distinct js"
    and "\<forall>i\<in>set js. f i (last_output st i) (last_delta st i) (last_noise st i) \<noteq> None"
  shows "\<exists>r. for_axes body js (st, out) = Some r"
  using assms(2,3)
proof (induction js arbitrary: st out)
  case Nil
  then show ?case by simp
next
  case (Cons j js)
  from Cons.prems(2) obtain out_j ld ln' where
    step: "f j (last_output st j) (last_delta st j) (last_noise st j) = Some (out_j, ld, ln')"
    by fastforce
  define st1 where "st1 = st\<lparr>last_output := (last_output st)(j := out_j),
                             last_delta := (last_delta st)(j := ld),
                             last_noise := (last_noise st)(j := ln')\<rparr>"
  have dj: "j \<notin> set js" "distinct js" using Cons.prems(1) by auto
  have "\<forall>i\<in>set js. f i (last_output st1 i) (last_delta st1 i) (last_noise st1 i) \<noteq> None"
    using Cons.prems(2) dj(1) by (auto simp: st1_def)
  from Cons.IH [OF dj(2) this, of "out(j := out_j)"] obtain r where
    "for_axes body js (st1, out(j := out_j)) = Some r" by blast
  then have "for_axes body (j # js) (st, out) = Some r"
    using step by (simp add: body st1_def)
  then show ?case by blast
qed

lemma filter_axis_b64_step:
  "filter_axis_b64 da na dt_f e mn mx input i (st, out) =
     (case axis_step_b64 da na dt_f e mn mx i (input i) (last_output st i) (last_delta st i) (last_noise st i) of
        None \<Rightarrow> None
      | Some (out_i, ld, ln') \<Rightarrow>
          Some (st\<lparr>last_output := (last_output st)(i := out_i),
                   last_delta := (last_delta st)(i := ld),
                   last_noise := (last_noise st)(i := ln')\<rparr>, out(i := out_i)))"
  by (simp add: filter_axis_b64_def axis_step_b64_def Let_def split: option.splits)

lemma filter_b64_SomeD:
  assumes "FTNoIR_Filter_filter_b64 delta_RC noise_RC s clk input output st0 = Some (st', out')"
  shows "\<exists>da na.
           ewma_alpha_b64 (sample_dt_b64 clk input (initialise clk input st0)) delta_RC = Some da
         \<and> ewma_alpha_b64 (sample_dt_b64 clk input (initialise clk input st0)) noise_RC = Some na
         \<and> (\<forall>i<6. axis_step_b64 da na (filter_dt_b64 clk (initialise clk input st0))
                      (kSmoothingScaleCurve s) (kMinSmoothing s) (max_smoothing s) i (input i)
                      (last_output (initialise clk input st0) i)
                      (last_delta (initialise clk input st0) i)
                      (last_noise (initialise clk input st0) i)
                    = Some (last_output st' i, last_delta st' i, last_noise st' i)
                  \<and> out' i = last_output st' i)"
proof -
  let ?st = "initialise clk input st0"
  from assms obtain da na where
    a: "ewma_alpha_b64 (sample_dt_b64 clk input ?st) delta_RC = Some da"
       "ewma_alpha_b64 (sample_dt_b64 clk input ?st) noise_RC = Some na"
    and loop: "for_axes (filter_axis_b64 da na (filter_dt_b64 clk ?st) (kSmoothingScaleCurve s)
                 (kMinSmoothing s) (max_smoothing s) input) [0..<6]
                 (restart_timers clk (new_sample_b64 ?st input) ?st, output) = Some (st', out')"
    by (auto simp: FTNoIR_Filter_filter_b64_def Let_def split: option.splits)
  note r = for_axes_store [of "filter_axis_b64 da na (filter_dt_b64 clk ?st) (kSmoothingScaleCurve s)
                 (kMinSmoothing s) (max_smoothing s) input"
      "\<lambda>i. axis_step_b64 da na (filter_dt_b64 clk ?st) (kSmoothingScaleCurve s)
                 (kMinSmoothing s) (max_smoothing s) i (input i)",
      OF filter_axis_b64_step axes_set(2) loop]
  show ?thesis
    using a r by (intro exI [of _ da] exI [of _ na]) simp
qed

lemma filter_b64_total:
  assumes "ewma_alpha_b64 (sample_dt_b64 clk input (initialise clk input st0)) delta_RC = Some da"
    and "ewma_alpha_b64 (sample_dt_b64 clk input (initialise clk input st0)) noise_RC = Some na"
    and "\<forall>i<6. axis_step_b64 da na (filter_dt_b64 clk (initialise clk input st0))
                      (kSmoothingScaleCurve s) (kMinSmoothing s) (max_smoothing s) i (input i)
                      (last_output (initialise clk input st0) i)
                      (last_delta (initialise clk input st0) i)
                      (last_noise (initialise clk input st0) i) \<noteq> None"
  shows "\<exists>st' out'. FTNoIR_Filter_filter_b64 delta_RC noise_RC s clk input output st0
                      = Some (st', out')"
proof -
  let ?st = "initialise clk input st0"
  have "\<exists>r. for_axes (filter_axis_b64 da na (filter_dt_b64 clk ?st) (kSmoothingScaleCurve s)
                 (kMinSmoothing s) (max_smoothing s) input) [0..<6]
                 (restart_timers clk (new_sample_b64 ?st input) ?st, output) = Some r"
    using assms(3)
    by (intro for_axes_store_total [of
          "filter_axis_b64 da na (filter_dt_b64 clk ?st) (kSmoothingScaleCurve s)
                 (kMinSmoothing s) (max_smoothing s) input"
          "\<lambda>i. axis_step_b64 da na (filter_dt_b64 clk ?st) (kSmoothingScaleCurve s)
                 (kMinSmoothing s) (max_smoothing s) i (input i)", OF filter_axis_b64_step])
       simp_all
  then show ?thesis
    using assms(1,2) by (auto simp: FTNoIR_Filter_filter_b64_def Let_def)
qed

lemma axis_step_b64_SomeD:
  assumes "axis_step_b64 da na dt_f e mn mx i x lo ld0 ln0 = Some (out_i, ld, ln')"
  shows "ld = rnd (rnd (da * rnd (x - lo)) + rnd (rnd (1 - da) * ld0))"
    and "ln' = rnd (rnd (na * rnd (ld * ld)) + rnd (rnd (1 - na) * ln0))"
    and "\<exists>rc alpha. axis_RC_b64 e mn mx i (rnd (ld * ld)) ln' = Some rc
           \<and> ewma_alpha_b64 dt_f rc = Some alpha
           \<and> out_i = rnd (rnd (alpha * x) + rnd (rnd (1 - alpha) * lo))"
  using assms by (auto simp: axis_step_b64_def Let_def split: option.splits)

lemma axis_step_b64_alpha:
  assumes "i < 6" "0 \<le> e" "mn \<le> mx" "rnd mn = mn" "0 < mn" "0 \<le> dt_f" "rnd dt_f = dt_f"
    and "0 \<le> noise"
  shows "\<exists>rc alpha. axis_RC_b64 e mn mx i noise lnoise = Some rc
           \<and> ewma_alpha_b64 dt_f rc = Some alpha \<and> 0 \<le> alpha \<and> alpha \<le> 1"
proof -
  obtain rc where rc: "axis_RC_b64 e mn mx i noise lnoise = Some rc" "rnd (c ! i * mn) \<le> rc"
    using axis_RC_b64_bounds [OF assms(1,2,3,4,8), of lnoise] by blast
  have "0 < c ! i * mn" using c_pos [OF assms(1)] assms(5) by simp
  then have "0 < rnd (c ! i * mn)" by (rule rnd_pos)
  with rc(2) have "0 < rc" by linarith
  from ewma_alpha_b64_range [OF assms(6,7) this] rc(1) show ?thesis by blast
qed

lemma axis_step_b64_total:
  assumes "i < 6" "0 \<le> e" "mn \<le> mx" "rnd mn = mn" "0 < mn" "0 \<le> dt_f" "rnd dt_f = dt_f"
  shows "axis_step_b64 da na dt_f e mn mx i x lo ld0 ln0 \<noteq> None"
proof -
  define ld where "ld = rnd (rnd (da * rnd (x - lo)) + rnd (rnd (1 - da) * ld0))"
  define ln' where "ln' = rnd (rnd (na * rnd (ld * ld)) + rnd (rnd (1 - na) * ln0))"
  have "0 \<le> rnd (ld * ld)" by (intro rnd_nonneg) simp
  from axis_step_b64_alpha [OF assms this, of ln'] show ?thesis
    by (auto simp: axis_step_b64_def Let_def ld_def ln'_def)
qed

lemma axis_step_b64_frozen:
  assumes "axis_step_b64 0 0 dt_f e mn mx i x lo ld0 ln0 = Some (out_i, ld, ln')"
    and "rnd ld0 = ld0" "rnd ln0 = ln0"
  shows "ld = ld0" "ln' = ln0"
  using axis_step_b64_SomeD(1,2) [OF assms(1)] assms(2,3) by simp_all

lemma axis_step_b64_same_input:
  assumes "axis_step_b64 da na dt_f e mn mx i x x ld0 ln0 = Some (out_i, ld, ln')"
    and "i < 6" "0 \<le> e" "mn \<le> mx" "rnd mn = mn" "0 < mn" "0 \<le> dt_f" "rnd dt_f = dt_f"
  shows "\<bar>out_i - x\<bar> \<le> \<bar>x\<bar> / 2 ^ 51"
proof -
  from axis_step_b64_SomeD(3) [OF assms(1)] obtain rc alpha where
    rc: "axis_RC_b64 e mn mx i (rnd (ld * ld)) ln' = Some rc"
    and al: "ewma_alpha_b64 dt_f rc = Some alpha"
    and o: "out_i = rnd (rnd (alpha * x) + rnd (rnd (1 - alpha) * x))"
    by blast
  have "0 \<le> rnd (ld * ld)" by (intro rnd_nonneg) simp
  from axis_step_b64_alpha [OF assms(2-8) this, of ln'] rc al
  have "0 \<le> alpha" "alpha \<le> 1" by auto
  from blend_b64_same [OF this, of x] show ?thesis unfolding o .
qed

lemma detect_new_sample_b64_iff:
  "detect_new_sample_b64 lo input js \<longleftrightarrow> (\<exists>i\<in>set js. \<bar>rnd (lo i - input i)\<bar> > d_1e_4)"
  by (induction js) auto

lemma not_new_sample_b64_same:
  "\<forall>i<6. input i = last_output st i \<Longrightarrow> \<not> new_sample_b64 st input"
  using d_consts_pos(2) by (auto simp: new_sample_b64_def detect_new_sample_b64_iff)

lemma filter_dt_b64_double [simp]: "rnd (filter_dt_b64 clk st) = filter_dt_b64 clk st"
  by (simp add: filter_dt_b64_def elapsed_seconds_b64_def)

lemma filter_dt_b64_nonneg:
  "0 \<le> elapsed (t_elapsed_filter clk) (filter_timer st) \<Longrightarrow> 0 \<le> filter_dt_b64 clk st"
  using d_consts_pos(1)
  by (auto simp: filter_dt_b64_def elapsed_seconds_b64_def intro!: rnd_nonneg mult_nonneg_nonneg)

lemma filter_b64_returns_frozen:
  assumes "\<not> new_sample_b64 (initialise clk input st0) input"
    and "delta_RC \<noteq> 0" "noise_RC \<noteq> 0"
    and "0 \<le> kSmoothingScaleCurve s" "0 < kMinSmoothing s" "rnd (kMinSmoothing s) = kMinSmoothing s"
    and "0 \<le> elapsed (t_elapsed_filter clk) (filter_timer (initialise clk input st0))"
  shows "\<exists>st' out'. FTNoIR_Filter_filter_b64 delta_RC noise_RC s clk input output st0
                      = Some (st', out')"
proof -
  let ?st = "initialise clk input st0"
  have dt0: "sample_dt_b64 clk input ?st = 0" using assms(1) by (simp add: sample_dt_b64_def)
  have da: "ewma_alpha_b64 (sample_dt_b64 clk input ?st) delta_RC = Some 0"
    and na: "ewma_alpha_b64 (sample_dt_b64 clk input ?st) noise_RC = Some 0"
    using assms(2,3) by (simp_all add: dt0 ewma_alpha_b64_zero)
  have "kMinSmoothing s \<le> max_smoothing s" by (simp add: max_smoothing_def)
  then show ?thesis
    using assms(4,5,6) filter_dt_b64_nonneg [OF assms(7)]
    by (intro filter_b64_total [OF da na] allI impI axis_step_b64_total) simp_all
qed

lemma filter_b64_frozen:
  assumes "\<not> new_sample_b64 (initialise clk input st0) input"
    and "FTNoIR_Filter_filter_b64 delta_RC noise_RC s clk input output st0 = Some (st', out')"
    and "i < 6"
  shows "axis_step_b64 0 0 (filter_dt_b64 clk (initialise clk input st0)) (kSmoothingScaleCurve s)
           (kMinSmoothing s) (max_smoothing s) i
           (input i) (last_output (initialise clk input st0) i)
           (last_delta (initialise clk input st0) i) (last_noise (initialise clk input st0) i)
         = Some (last_output st' i, last_delta st' i, last_noise st' i)"
    and "out' i = last_output st' i"
proof -
  let ?st = "initialise clk input st0"
  have dt0: "sample_dt_b64 clk input ?st = 0" using assms(1) by (simp add: sample_dt_b64_def)
  from filter_b64_SomeD [OF assms(2)] obtain da na where
    da: "ewma_alpha_b64 (sample_dt_b64 clk input ?st) delta_RC = Some da"
    and na: "ewma_alpha_b64 (sample_dt_b64 clk input ?st) noise_RC = Some na"
    and ax: "axis_step_b64 da na (filter_dt_b64 clk ?st) (kSmoothingScaleCurve s) (kMinSmoothing s)
               (max_smoothing s) i (input i) (last_output ?st i) (last_delta ?st i) (last_noise ?st i)
             = Some (last_output st' i, last_delta st' i, last_noise st' i)"
    and out: "out' i = last_output st' i"
    using assms(3) by blast
  have z: "da = 0" "na = 0"
    using da na by (simp_all add: dt0 ewma_alpha_b64_zero_dt)
  show "axis_step_b64 0 0 (filter_dt_b64 clk ?st) (kSmoothingScaleCurve s)
           (kMinSmoothing s) (max_smoothing s) i
           (input i) (last_output ?st i) (last_delta ?st i) (last_noise ?st i)
         = Some (last_output st' i, last_delta st' i, last_noise st' i)"
    using ax unfolding z .
  show "out' i = last_output st' i" by (rule out)
qed

lemma dtf_10ms:
  "filter_dt_b64 example_clock_10ms example_converged = 5764607523034235 / 576460752303423488"
  by (simp add: filter_dt_b64_def elapsed_seconds_b64_def elapsed_def conv_def d_1e_9_def
      example_clock_10ms_def example_converged_def
      rnd_eval [where k = 82] rnd_eval [where k = 29] rnd_eval [where k = 59] round_even_def)

lemma axis5_10ms:
  "axis_step_b64 0 0 (5764607523034235 / 576460752303423488) 1 (1 / 2) (1 / 2) 5 100 100 0 0
     = Some (7036874417766399 / 70368744177664, 0, 0)"
  using d_consts_pos(3)
  by (simp add: axis_step_b64_def axis_RC_b64_def norm_noise_b64_def smoothing_b64_def std_pow_def
      RC_b64_def ewma_alpha_b64_def ddiv_def c_def Let_def
      rnd_eval [where k = 53] rnd_eval [where k = 58] rnd_eval [where k = 52]
      rnd_eval [where k = 46] round_even_def)

section \<open>The claims\<close>

text \<open>
  C1 (bounded time constant), as amended. In binary64 the time constant of axis \<open>i\<close>
  is not below \<^verbatim>\<open>c[i]*min_smoothing\<close> as binary64 computes that product, and it
  exceeds the exact product \<open>c[i] * max_smoothing\<close> by at most
  \<open>c[i] * max(\<bar>min_smoothing\<bar>, \<bar>max_smoothing\<bar>) / 2^50\<close>: the upper bound holds up to
  rounding only. This is so for every axis, every smoothed delta and updated noise (so
  every state, input and noise level), and all settings with a curve exponent that is
  not negative and a minimal smoothing that is a binary64 number; \<open>max_smoothing\<close> is
  the maximum after the clamp. \<open>filter_axis_b64\<close> computes its time constant by this
  call of \<open>axis_RC_b64\<close>, with the noise \<^verbatim>\<open>last_delta[i]*last_delta[i]\<close>.
\<close>

theorem C1_bounded_time_constant:
  assumes "i < 6" and "0 \<le> kSmoothingScaleCurve s"
    and "rnd (kMinSmoothing s) = kMinSmoothing s"
  shows "\<exists>rc. axis_RC_b64 (kSmoothingScaleCurve s) (kMinSmoothing s) (max_smoothing s) i
                 (rnd (ldelta * ldelta)) lnoise = Some rc
              \<and> rnd (c ! i * kMinSmoothing s) \<le> rc
              \<and> rc \<le> c ! i * max_smoothing s
                       + c ! i * max \<bar>kMinSmoothing s\<bar> \<bar>max_smoothing s\<bar> / 2 ^ 50"
proof -
  have "kMinSmoothing s \<le> max_smoothing s" by (simp add: max_smoothing_def)
  moreover have "0 \<le> rnd (ldelta * ldelta)" by (intro rnd_nonneg) simp
  ultimately show ?thesis
    using assms by (intro axis_RC_b64_bounds)
qed

theorem C1_witness:
  "(3 :: nat) < 6 \<and> 0 \<le> kSmoothingScaleCurve example_b64_settings
   \<and> rnd (kMinSmoothing example_b64_settings) = kMinSmoothing example_b64_settings
   \<and> (\<exists>rc. axis_RC_b64 (kSmoothingScaleCurve example_b64_settings)
               (kMinSmoothing example_b64_settings) (max_smoothing example_b64_settings) 3
               (rnd (0 * 0)) 0 = Some rc
            \<and> rnd (c ! 3 * kMinSmoothing example_b64_settings) \<le> rc
            \<and> rc \<le> c ! 3 * max_smoothing example_b64_settings
                     + c ! 3 * max \<bar>kMinSmoothing example_b64_settings\<bar>
                                   \<bar>max_smoothing example_b64_settings\<bar> / 2 ^ 50)"
proof -
  have h1: "(3 :: nat) < 6" by simp
  have h2: "0 \<le> kSmoothingScaleCurve example_b64_settings"
    by (simp add: example_b64_settings_def)
  have h3: "rnd (kMinSmoothing example_b64_settings) = kMinSmoothing example_b64_settings"
    by (simp add: example_b64_settings_def)
  from C1_bounded_time_constant [OF h1 h2 h3, of 0 0] h1 h2 h3 show ?thesis by blast
qed

text \<open>
  The claim without the tolerance fails: with the minimum 0.03, the maximum 0.3 and a
  filter at rest (smoothing 1), \<^verbatim>\<open>min + 1.0*(max - min)\<close> is
  0.30000000000000004, above the maximum 0.3, on an axis of weight 1.
\<close>

theorem C1_counterexample:
  "(3 :: nat) < 6 \<and> 0 \<le> kSmoothingScaleCurve example_b64_settings
   \<and> rnd (kMinSmoothing example_b64_settings) = kMinSmoothing example_b64_settings
   \<and> rnd (max_smoothing example_b64_settings) = max_smoothing example_b64_settings
   \<and> axis_RC_b64 (kSmoothingScaleCurve example_b64_settings) (kMinSmoothing example_b64_settings)
        (max_smoothing example_b64_settings) 3 (rnd (0 * 0)) 0
      = Some (1351079888211149 / 4503599627370496)
   \<and> c ! 3 * max_smoothing example_b64_settings < 1351079888211149 / 4503599627370496
   \<and> rnd (c ! 3 * max_smoothing example_b64_settings) < 1351079888211149 / 4503599627370496"
proof -
  have mx: "max_smoothing example_b64_settings = 5404319552844595 / 18014398509481984"
    by (simp add: max_smoothing_def example_b64_settings_def rnd_3_100 rnd_3_10)
  have mn: "kMinSmoothing example_b64_settings = 1080863910568919 / 36028797018963968"
    by (simp add: example_b64_settings_def rnd_3_100)
  have dmn: "rnd (kMinSmoothing example_b64_settings) = kMinSmoothing example_b64_settings"
    by (simp add: example_b64_settings_def)
  have dmx: "rnd (max_smoothing example_b64_settings) = max_smoothing example_b64_settings"
    by (simp add: max_smoothing_def example_b64_settings_def max_def)
  have t1: "rnd (5404319552844595 / 18014398509481984 - 1080863910568919 / 36028797018963968)
              = 607985949695017 / 2251799813685248"
    by (simp add: rnd_eval [where k = 54] round_even_def)
  have t3: "rnd (1080863910568919 / 36028797018963968 + 607985949695017 / 2251799813685248)
              = 1351079888211149 / 4503599627370496"
    by (simp add: rnd_eval [where k = 54] round_even_def)
  have t2: "rnd (1 * (607985949695017 / 2251799813685248)) = 607985949695017 / 2251799813685248"
    using rnd_idem [of "5404319552844595 / 18014398509481984 - 1080863910568919 / 36028797018963968"]
    unfolding t1 by simp
  have rc4: "rnd (1 * (1351079888211149 / 4503599627370496)) = 1351079888211149 / 4503599627370496"
    using rnd_idem [of "1080863910568919 / 36028797018963968 + 607985949695017 / 2251799813685248"]
    unfolding t3 by simp
  have c3: "c ! 3 = 1" by (simp add: c_def)
  have sm: "smoothing_b64 0 1 = Some 1" by (simp add: smoothing_b64_def std_pow_def)
  have nn: "norm_noise_b64 0 0 = Some 0"
    using d_consts_pos(3) by (simp add: norm_noise_b64_def)
  have rc: "RC_b64 3 (1080863910568919 / 36028797018963968) (5404319552844595 / 18014398509481984) 1
              = 1351079888211149 / 4503599627370496"
    unfolding RC_b64_def c3 by (simp only: t1 t2 t3 rc4)
  have cur: "kSmoothingScaleCurve example_b64_settings = 1" by (simp add: example_b64_settings_def)
  have "axis_RC_b64 (kSmoothingScaleCurve example_b64_settings) (kMinSmoothing example_b64_settings)
        (max_smoothing example_b64_settings) 3 (rnd (0 * 0)) 0
      = Some (1351079888211149 / 4503599627370496)"
    unfolding cur mn mx by (simp add: axis_RC_b64_def nn sm rc)
  moreover have "c ! 3 * max_smoothing example_b64_settings < 1351079888211149 / 4503599627370496"
    unfolding c3 mx by simp
  moreover have "rnd (c ! 3 * max_smoothing example_b64_settings) < 1351079888211149 / 4503599627370496"
    unfolding c3 using dmx by (simp add: mx)
  ultimately show ?thesis using dmn dmx cur by simp
qed



text \<open>
  C3 (statistics frozen without a new sample). When the detection reports no change
  (on the state after the first-run block), \<^verbatim>\<open>dt_s\<close> is 0, \<^verbatim>\<open>delta_alpha\<close> and
  \<^verbatim>\<open>noise_alpha\<close> are exactly 0 (the constants of the header being nonzero), and every
  invocation leaves \<^verbatim>\<open>last_delta[i]\<close> and \<^verbatim>\<open>last_noise[i]\<close> of every axis as they
  were after the first-run block. The invocation returns finite values when the curve
  exponent is not negative, the minimal smoothing is positive and the clock did not
  run backwards.
\<close>

theorem C3_statistics_frozen:
  assumes "\<not> new_sample (initialise clk input st0) input"
    and "delta_RC \<noteq> 0" "noise_RC \<noteq> 0"
  shows "sample_dt clk input (initialise clk input st0) = 0
       \<and> ewma_alpha (sample_dt clk input (initialise clk input st0)) delta_RC = Some 0
       \<and> ewma_alpha (sample_dt clk input (initialise clk input st0)) noise_RC = Some 0
       \<and> (\<forall>st' out'. FTNoIR_Filter_filter delta_RC noise_RC s clk input output st0 = Some (st', out')
            \<longrightarrow> (\<forall>i<6. last_delta st' i = last_delta (initialise clk input st0) i
                       \<and> last_noise st' i = last_noise (initialise clk input st0) i))
       \<and> (0 \<le> kSmoothingScaleCurve s \<and> 0 < kMinSmoothing s
            \<and> 0 \<le> filter_dt clk (initialise clk input st0)
          \<longrightarrow> (\<exists>st' out'. FTNoIR_Filter_filter delta_RC noise_RC s clk input output st0
                             = Some (st', out')))"
proof -
  have dt0: "sample_dt clk input (initialise clk input st0) = 0"
    using assms(1) by (rule sample_dt_no_change)
  moreover have "ewma_alpha (sample_dt clk input (initialise clk input st0)) delta_RC = Some 0"
    "ewma_alpha (sample_dt clk input (initialise clk input st0)) noise_RC = Some 0"
    using assms(2,3) by (simp_all add: dt0 ewma_alpha_zero)
  moreover have "last_delta st' i = last_delta (initialise clk input st0) i
                 \<and> last_noise st' i = last_noise (initialise clk input st0) i"
    if "FTNoIR_Filter_filter delta_RC noise_RC s clk input output st0 = Some (st', out')" "i < 6"
    for st' out' i
    using filter_frozen(1,2) [OF assms(1) that] by simp
  moreover have "\<exists>st' out'. FTNoIR_Filter_filter delta_RC noise_RC s clk input output st0
                             = Some (st', out')"
    if "0 \<le> kSmoothingScaleCurve s \<and> 0 < kMinSmoothing s
            \<and> 0 \<le> filter_dt clk (initialise clk input st0)"
    using filter_returns_frozen [OF assms] that by blast
  ultimately show ?thesis by blast
qed

theorem C3_witness:
  "\<not> new_sample (initialise example_clock example_jitter example_running) example_jitter
   \<and> (1 / 60 :: real) \<noteq> 0 \<and> (60 :: real) \<noteq> 0
   \<and> sample_dt example_clock example_jitter
        (initialise example_clock example_jitter example_running) = 0
   \<and> ewma_alpha (sample_dt example_clock example_jitter
        (initialise example_clock example_jitter example_running)) (1 / 60) = Some 0
   \<and> ewma_alpha (sample_dt example_clock example_jitter
        (initialise example_clock example_jitter example_running)) 60 = Some 0
   \<and> (\<exists>st' out'. FTNoIR_Filter_filter (1 / 60) 60 example_settings example_clock example_jitter
                    example_rest example_running = Some (st', out')
         \<and> (\<forall>i<6. last_delta st' i = 1 / 4 \<and> last_noise st' i = 1 / 8))"
proof -
  have init: "initialise example_clock example_jitter example_running = example_running"
    by (simp add: initialise_def example_running_def)
  have h1: "\<not> new_sample (initialise example_clock example_jitter example_running) example_jitter"
    unfolding init by (simp add: new_sample_iff example_running_def example_jitter_def)
  have h2: "(1 / 60 :: real) \<noteq> 0" and h3: "(60 :: real) \<noteq> 0" by simp_all
  have h4: "0 \<le> kSmoothingScaleCurve example_settings \<and> 0 < kMinSmoothing example_settings
            \<and> 0 \<le> filter_dt example_clock (initialise example_clock example_jitter example_running)"
    unfolding init
    by (simp add: filter_dt_def elapsed_seconds_def elapsed_def conv_def example_clock_def
        example_running_def example_settings_def)
  have ld: "last_delta (initialise example_clock example_jitter example_running) i = 1 / 4"
    and ln: "last_noise (initialise example_clock example_jitter example_running) i = 1 / 8" for i
    unfolding init by (simp_all add: example_running_def)
  from C3_statistics_frozen [OF h1 h2 h3, of example_settings example_rest] h1 h2 h3 h4
  show ?thesis unfolding ld ln by blast
qed

text \<open>
  C4 (detection of a new sample). The detection reports a change if and only if some
  axis \<open>i < 6\<close> has \<open>\<bar>input[i] - last_output[i]\<bar> > 1e-4\<close>, the same threshold on all
  six axes. It is a function of the input and \<^verbatim>\<open>last_output\<close> to \<open>bool\<close>: it changes
  no state.
\<close>

theorem C4_sample_change_detector:
  "new_sample st input \<longleftrightarrow> (\<exists>i<6. \<bar>input i - last_output st i\<bar> > 1 / 10000)"
  by (rule new_sample_iff)

text \<open>
  C5 (fixed point under the same input), as amended. After the first run, an
  invocation whose input equals \<^verbatim>\<open>last_output\<close> on all six axes returns finite
  values, leaves \<^verbatim>\<open>last_delta\<close> and \<^verbatim>\<open>last_noise\<close> unchanged on every axis, stores
  what it returns in \<^verbatim>\<open>last_output\<close>, and returns on every axis a value within
  \<open>\<bar>input[i]\<bar> / 2^51\<close> of the input: the blend
  \<^verbatim>\<open>alpha*input[i] + (1.0-alpha)*last_output[i]\<close> rounds, so the output and
  \<^verbatim>\<open>last_output\<close> equal the input up to rounding only. The entries of \<^verbatim>\<open>last_delta\<close>
  and \<^verbatim>\<open>last_noise\<close> and the minimal smoothing are binary64 numbers, the constants of
  the header are not zero, the curve exponent is not negative, the minimal smoothing is
  positive and the clock did not run backwards.
\<close>

theorem C5_converged_fixed_point:
  assumes "\<not> first_run st" and "\<forall>i<6. input i = last_output st i"
    and "\<forall>i<6. rnd (last_delta st i) = last_delta st i \<and> rnd (last_noise st i) = last_noise st i"
    and "delta_RC \<noteq> 0" "noise_RC \<noteq> 0"
    and "0 \<le> kSmoothingScaleCurve s" "0 < kMinSmoothing s"
    and "rnd (kMinSmoothing s) = kMinSmoothing s"
    and "0 \<le> elapsed (t_elapsed_filter clk) (filter_timer st)"
  shows "\<exists>st' out'. FTNoIR_Filter_filter_b64 delta_RC noise_RC s clk input output st = Some (st', out')
           \<and> (\<forall>i<6. last_delta st' i = last_delta st i \<and> last_noise st' i = last_noise st i
                  \<and> last_output st' i = out' i
                  \<and> \<bar>out' i - input i\<bar> \<le> \<bar>input i\<bar> / 2 ^ 51)"
proof -
  have init: "initialise clk input st = st" using assms(1) by (rule initialise_not_first_run)
  have same: "\<not> new_sample_b64 (initialise clk input st) input"
    unfolding init using assms(2) by (rule not_new_sample_b64_same)
  have el: "0 \<le> elapsed (t_elapsed_filter clk) (filter_timer (initialise clk input st))"
    unfolding init by (rule assms(9))
  obtain st' out' where
    res: "FTNoIR_Filter_filter_b64 delta_RC noise_RC s clk input output st = Some (st', out')"
    using filter_b64_returns_frozen [OF same assms(4,5,6,7,8) el, of "output"] by blast
  have clamp: "kMinSmoothing s \<le> max_smoothing s" by (simp add: max_smoothing_def)
  have "last_delta st' i = last_delta st i \<and> last_noise st' i = last_noise st i
        \<and> last_output st' i = out' i \<and> \<bar>out' i - input i\<bar> \<le> \<bar>input i\<bar> / 2 ^ 51"
    if i: "i < 6" for i
  proof -
    note f = filter_b64_frozen [OF same res i, unfolded init]
    have d: "rnd (last_delta st i) = last_delta st i" "rnd (last_noise st i) = last_noise st i"
      using assms(3) i by simp_all
    have x: "last_output st i = input i" using assms(2) i by simp
    note fr = axis_step_b64_frozen [OF f(1) d]
    have "\<bar>last_output st' i - input i\<bar> \<le> \<bar>input i\<bar> / 2 ^ 51"
      using axis_step_b64_same_input [OF f(1) [unfolded x] i assms(6) clamp assms(8) assms(7)
          filter_dt_b64_nonneg [OF assms(9)] filter_dt_b64_double] .
    with fr f(2) show ?thesis by simp
  qed
  with res show ?thesis by blast
qed

theorem C5_witness:
  "\<not> first_run example_converged
   \<and> map example_hundred [0..<6] = map (last_output example_converged) [0..<6]
   \<and> map (\<lambda>i. rnd (last_delta example_converged i)) [0..<6]
       = map (last_delta example_converged) [0..<6]
   \<and> map (\<lambda>i. rnd (last_noise example_converged i)) [0..<6]
       = map (last_noise example_converged) [0..<6]
   \<and> (1 / 16 :: real) \<noteq> 0 \<and> (64 :: real) \<noteq> 0
   \<and> 0 \<le> kSmoothingScaleCurve example_flat \<and> 0 < kMinSmoothing example_flat
   \<and> rnd (kMinSmoothing example_flat) = kMinSmoothing example_flat
   \<and> 0 \<le> elapsed (t_elapsed_filter example_clock_10ms) (filter_timer example_converged)
   \<and> (\<exists>st' out'.
         FTNoIR_Filter_filter_b64 (1 / 16) 64 example_flat example_clock_10ms example_hundred
           example_rest example_converged = Some (st', out')
         \<and> (\<forall>i<6. last_delta st' i = last_delta example_converged i
                \<and> last_noise st' i = last_noise example_converged i
                \<and> last_output st' i = out' i
                \<and> \<bar>out' i - example_hundred i\<bar> \<le> \<bar>example_hundred i\<bar> / 2 ^ 51))"
proof -
  have h1: "\<not> first_run example_converged" by (simp add: example_converged_def)
  have h2: "\<forall>i<6. example_hundred i = last_output example_converged i"
    by (simp add: example_hundred_def example_converged_def)
  have h3: "\<forall>i<6. rnd (last_delta example_converged i) = last_delta example_converged i
              \<and> rnd (last_noise example_converged i) = last_noise example_converged i"
    by (simp add: example_converged_def)
  have h4: "(1 / 16 :: real) \<noteq> 0" and h5: "(64 :: real) \<noteq> 0" by simp_all
  have h6: "0 \<le> kSmoothingScaleCurve example_flat" and h7: "0 < kMinSmoothing example_flat"
    and h8: "rnd (kMinSmoothing example_flat) = kMinSmoothing example_flat"
    by (simp_all add: example_flat_def)
  have h9: "0 \<le> elapsed (t_elapsed_filter example_clock_10ms) (filter_timer example_converged)"
    by (simp add: elapsed_def conv_def example_clock_10ms_def example_converged_def)
  have m: "map example_hundred [0..<6] = map (last_output example_converged) [0..<6]"
    "map (\<lambda>i. rnd (last_delta example_converged i)) [0..<6]
       = map (last_delta example_converged) [0..<6]"
    "map (\<lambda>i. rnd (last_noise example_converged i)) [0..<6]
       = map (last_noise example_converged) [0..<6]"
    by (simp_all add: example_hundred_def example_converged_def)
  from C5_converged_fixed_point [OF h1 h2 h3 h4 h5 h6 h7 h8 h9, of example_rest]
    h1 h4 h5 h6 h7 h8 h9 m
  show ?thesis by blast
qed

text \<open>
  The claim as an exact fixed point fails: a filter at rest at 100 on every axis, fed
  100 again 10 ms later with minimal and maximal smoothing 0.5, returns
  99.99999999999999 on axis 5 and stores it in \<^verbatim>\<open>last_output\<close>.
\<close>

theorem C5_counterexample:
  "\<not> first_run example_converged
   \<and> map example_hundred [0..<6] = map (last_output example_converged) [0..<6]
   \<and> (\<exists>st' out'.
         FTNoIR_Filter_filter_b64 (1 / 16) 64 example_flat example_clock_10ms example_hundred
           example_rest example_converged = Some (st', out')
         \<and> out' 5 = 7036874417766399 / 70368744177664
         \<and> out' 5 \<noteq> example_hundred 5
         \<and> last_output st' 5 \<noteq> last_output example_converged 5)"
proof -
  have nf: "\<not> first_run example_converged" by (simp add: example_converged_def)
  have init: "initialise example_clock_10ms example_hundred example_converged = example_converged"
    using nf by (rule initialise_not_first_run)
  have eq: "\<forall>i<6. example_hundred i = last_output example_converged i"
    by (simp add: example_hundred_def example_converged_def)
  have same: "\<not> new_sample_b64 (initialise example_clock_10ms example_hundred example_converged)
                 example_hundred"
    unfolding init using eq by (rule not_new_sample_b64_same)
  have el: "0 \<le> elapsed (t_elapsed_filter example_clock_10ms)
                  (filter_timer (initialise example_clock_10ms example_hundred example_converged))"
    unfolding init by (simp add: elapsed_def conv_def example_clock_10ms_def example_converged_def)
  obtain st' out' where
    res: "FTNoIR_Filter_filter_b64 (1 / 16) 64 example_flat example_clock_10ms example_hundred
            example_rest example_converged = Some (st', out')"
    using filter_b64_returns_frozen [OF same _ _ _ _ _ el, of "1 / 16" 64 example_flat example_rest]
    by (auto simp: example_flat_def)
  have five: "(5 :: nat) < 6" by simp
  note f = filter_b64_frozen [OF same res five, unfolded init dtf_10ms]
  have "axis_step_b64 0 0 (5764607523034235 / 576460752303423488) 1 (1 / 2) (1 / 2) 5 100 100 0 0
          = Some (last_output st' 5, last_delta st' 5, last_noise st' 5)"
    using f(1) by (simp add: example_flat_def max_smoothing_def example_hundred_def
        example_converged_def)
  then have lo: "last_output st' 5 = 7036874417766399 / 70368744177664"
    unfolding axis5_10ms by simp
  have "map example_hundred [0..<6] = map (last_output example_converged) [0..<6]"
    by (simp add: example_hundred_def example_converged_def)
  moreover have "out' 5 = 7036874417766399 / 70368744177664" using f(2) lo by simp
  moreover have "out' 5 \<noteq> example_hundred 5"
    using f(2) lo by (simp add: example_hundred_def)
  moreover have "last_output st' 5 \<noteq> last_output example_converged 5"
    using lo by (simp add: example_converged_def)
  ultimately show ?thesis using nf res by blast
qed

text \<open>
  C6 (smoothing fraction). For a normalised noise in \<open>[0,1]\<close> and a positive curve
  exponent, \<^verbatim>\<open>1.0 - pow(norm_noise, smoothing_scale_curve)\<close> is a number in \<open>[0,1]\<close>;
  it is exactly 1 at normalised noise 0 and exactly 0 at normalised noise 1.
\<close>

theorem C6_smoothing_fraction:
  assumes "0 \<le> nn" "nn \<le> 1" "0 < e"
  shows "(\<exists>sm. smoothing nn e = Some sm \<and> 0 \<le> sm \<and> sm \<le> 1)
       \<and> smoothing 0 e = Some 1 \<and> smoothing 1 e = Some 0"
proof -
  have "0 \<le> e" using assms(3) by simp
  from smoothing_range [OF assms(1,2) this]
  have "\<exists>sm. smoothing nn e = Some sm \<and> 0 \<le> sm \<and> sm \<le> 1" .
  moreover have "smoothing 0 e = Some 1" using assms(3) by (simp add: smoothing_def std_pow_def)
  moreover have "smoothing 1 e = Some 0" using assms(3) by (simp add: smoothing_def std_pow_def)
  ultimately show ?thesis by blast
qed

theorem C6_witness:
  "(0 :: real) \<le> 2 / 9 \<and> (2 / 9 :: real) \<le> 1 \<and> (0 :: real) < 4 / 5
   \<and> (\<exists>sm. smoothing (2 / 9) (4 / 5) = Some sm \<and> 0 \<le> sm \<and> sm \<le> 1)
   \<and> smoothing 0 (4 / 5) = Some 1 \<and> smoothing 1 (4 / 5) = Some 0"
proof -
  have h: "(0 :: real) \<le> 2 / 9" "(2 / 9 :: real) \<le> 1" "(0 :: real) < 4 / 5" by simp_all
  from C6_smoothing_fraction [OF h] h show ?thesis by blast
qed

text \<open>
  C7 (the noise estimate is never negative). If the filter has not run yet, or
  \<^verbatim>\<open>last_noise[i]\<close> is not negative on every axis, then after an invocation the filter
  has run and \<^verbatim>\<open>last_noise[i]\<close> is not negative on every axis: the property holds after
  the initialisation and every invocation preserves it. \<^verbatim>\<open>noise_RC\<close> is positive and
  the clock did not run backwards since \<^verbatim>\<open>sample_timer.start()\<close>. The invocation returns
  finite values when moreover \<^verbatim>\<open>delta_RC\<close> and the minimal smoothing are positive and
  the curve exponent is not negative.
\<close>

theorem C7_noise_nonnegative:
  assumes "first_run st0 \<or> (\<forall>i<6. 0 \<le> last_noise st0 i)"
    and "0 < noise_RC"
    and "0 \<le> sample_dt clk input (initialise clk input st0)"
  shows "(\<forall>st' out'. FTNoIR_Filter_filter delta_RC noise_RC s clk input output st0 = Some (st', out')
            \<longrightarrow> \<not> first_run st' \<and> (\<forall>i<6. 0 \<le> last_noise st' i))
       \<and> (0 < delta_RC \<and> 0 \<le> kSmoothingScaleCurve s \<and> 0 < kMinSmoothing s
            \<and> 0 \<le> filter_dt clk (initialise clk input st0)
          \<longrightarrow> (\<exists>st' out'. FTNoIR_Filter_filter delta_RC noise_RC s clk input output st0
                             = Some (st', out')))"
proof -
  let ?st = "initialise clk input st0"
  have inv: "0 \<le> last_noise ?st i" if "i < 6" for i
  proof (cases "first_run st0")
    case True
    then show ?thesis using initialise_first_run(4) [OF True that] by simp
  next
    case False
    then show ?thesis using assms(1) that by (simp add: initialise_not_first_run)
  qed
  have "\<not> first_run st' \<and> (\<forall>i<6. 0 \<le> last_noise st' i)"
    if res: "FTNoIR_Filter_filter delta_RC noise_RC s clk input output st0 = Some (st', out')"
    for st' out'
  proof -
    from filter_SomeD(1) [OF res] obtain da na where
      na: "ewma_alpha (sample_dt clk input ?st) noise_RC = Some na"
      and ax: "\<forall>i<6. axis_step da na (filter_dt clk ?st) (kSmoothingScaleCurve s) (kMinSmoothing s)
               (max_smoothing s) i (input i) (last_output ?st i) (last_delta ?st i) (last_noise ?st i)
             = Some (last_output st' i, last_delta st' i, last_noise st' i)
             \<and> out' i = last_output st' i"
      by blast
    from ewma_alpha_range [OF assms(3,2)] na have r: "0 \<le> na" "na \<le> 1" by auto
    have "0 \<le> last_noise st' i" if "i < 6" for i
      using ax that axis_step_noise_nonneg [OF _ r inv [OF that]] by blast
    moreover have "\<not> first_run st'" using filter_SomeD(2) [OF res] by simp
    ultimately show ?thesis by blast
  qed
  moreover have "\<exists>st' out'. FTNoIR_Filter_filter delta_RC noise_RC s clk input output st0
                             = Some (st', out')"
    if "0 < delta_RC \<and> 0 \<le> kSmoothingScaleCurve s \<and> 0 < kMinSmoothing s
            \<and> 0 \<le> filter_dt clk (initialise clk input st0)"
    using filter_returns [of delta_RC noise_RC clk input st0 s "output"] assms(2,3) that by blast
  ultimately show ?thesis by blast
qed

theorem C7_witness:
  "(first_run example_running \<or> (\<forall>i<6. 0 \<le> last_noise example_running i))
   \<and> (0 :: real) < 60
   \<and> 0 \<le> sample_dt example_clock example_pose
            (initialise example_clock example_pose example_running)
   \<and> (\<exists>st' out'. FTNoIR_Filter_filter (1 / 60) 60 example_settings example_clock example_pose
                    example_rest example_running = Some (st', out')
         \<and> \<not> first_run st' \<and> (\<forall>i<6. 0 \<le> last_noise st' i))"
proof -
  have init: "initialise example_clock example_pose example_running = example_running"
    by (simp add: initialise_def example_running_def)
  have h1: "first_run example_running \<or> (\<forall>i<6. 0 \<le> last_noise example_running i)"
    by (simp add: example_running_def)
  have h2: "(0 :: real) < 60" by simp
  have h3: "0 \<le> sample_dt example_clock example_pose
            (initialise example_clock example_pose example_running)"
    unfolding init
    by (simp add: sample_dt_def elapsed_seconds_def elapsed_def conv_def example_clock_def
        example_running_def)
  have h4: "(0 :: real) < 1 / 60 \<and> 0 \<le> kSmoothingScaleCurve example_settings
            \<and> 0 < kMinSmoothing example_settings
            \<and> 0 \<le> filter_dt example_clock (initialise example_clock example_pose example_running)"
    unfolding init
    by (simp add: filter_dt_def elapsed_seconds_def elapsed_def conv_def example_clock_def
        example_running_def example_settings_def)
  from C7_noise_nonnegative [OF h1 h2 h3, of "1 / 60" example_settings example_rest] h1 h2 h3 h4
  show ?thesis by blast
qed



text \<open>
  C9 (no division by zero in the normalisation). For every smoothed delta and every
  updated \<^verbatim>\<open>last_noise[i]\<close> (negative ones too): below \<open>1e-10\<close> the normalised noise
  is 0 and nothing is divided; otherwise the divisor \<^verbatim>\<open>9.0*last_noise[i]\<close> is positive,
  the division is defined and the normalised noise is
  \<^verbatim>\<open>min(noise/(9.0*last_noise[i]), 1.0)\<close>; in both cases it lies in \<open>[0,1]\<close>.
\<close>

theorem C9_noise_normalisation:
  "(lnoise < 1 / 10000000000 \<longrightarrow> norm_noise (ldelta * ldelta) lnoise = Some 0)
   \<and> (\<not> lnoise < 1 / 10000000000 \<longrightarrow>
        0 < 9 * lnoise
        \<and> ddiv (ldelta * ldelta) (9 * lnoise) = Some (ldelta * ldelta / (9 * lnoise))
        \<and> norm_noise (ldelta * ldelta) lnoise = Some (min (ldelta * ldelta / (9 * lnoise)) 1))
   \<and> (\<exists>nn. norm_noise (ldelta * ldelta) lnoise = Some nn \<and> 0 \<le> nn \<and> nn \<le> 1)"
proof -
  have "norm_noise (ldelta * ldelta) lnoise = Some 0" if "lnoise < 1 / 10000000000"
    using that by (simp add: norm_noise_def)
  moreover have "0 < 9 * lnoise
        \<and> ddiv (ldelta * ldelta) (9 * lnoise) = Some (ldelta * ldelta / (9 * lnoise))
        \<and> norm_noise (ldelta * ldelta) lnoise = Some (min (ldelta * ldelta / (9 * lnoise)) 1)"
    if "\<not> lnoise < 1 / 10000000000"
    using that by (simp add: norm_noise_def ddiv_def)
  moreover have "\<exists>nn. norm_noise (ldelta * ldelta) lnoise = Some nn \<and> 0 \<le> nn \<and> nn \<le> 1"
    by (rule norm_noise_range) simp
  ultimately show ?thesis by blast
qed

theorem C9_witness:
  "\<not> (1 / 8 :: real) < 1 / 10000000000 \<and> (0 :: real) < 9 * (1 / 8)
   \<and> ddiv (1 / 2 * (1 / 2)) (9 * (1 / 8)) = Some (2 / 9)
   \<and> norm_noise (1 / 2 * (1 / 2)) (1 / 8) = Some (2 / 9)
   \<and> (0 :: real) < 1 / 100000000000 \<and> norm_noise (3 * 3) (1 / 100000000000) = Some 0"
proof -
  have h: "\<not> (1 / 8 :: real) < 1 / 10000000000" by simp
  have k: "(1 / 100000000000 :: real) < 1 / 10000000000" by simp
  from C9_noise_normalisation [of "1 / 8" "1 / 2"] h
  have "(0 :: real) < 9 * (1 / 8)
        \<and> ddiv (1 / 2 * (1 / 2)) (9 * (1 / 8)) = Some (1 / 2 * (1 / 2) / (9 * (1 / 8)))
        \<and> norm_noise (1 / 2 * (1 / 2)) (1 / 8) = Some (min (1 / 2 * (1 / 2) / (9 * (1 / 8))) 1)"
    by blast
  moreover from C9_noise_normalisation [of "1 / 100000000000" 3] k
  have "norm_noise (3 * 3) (1 / 100000000000) = Some 0" by blast
  ultimately show ?thesis using h by simp
qed

text \<open>
  C10 (weights of the axes). The table \<^verbatim>\<open>c\<close> is the constant \<open>5, 5, 3, 1, 1, 1\<close>, and
  every invocation that returns finite values uses exactly these weights: on every axis
  \<open>i\<close> the output is the blend of the input and the previous output with the factor
  \<open>dt_f / (dt_f + w[i] * (min_smoothing + smoothing * (max_smoothing - min_smoothing)))\<close>,
  where \<open>w\<close> is \<open>5, 5, 3, 1, 1, 1\<close> and \<open>smoothing\<close> is the one of the updated
  \<^verbatim>\<open>last_delta[i]\<close> and \<^verbatim>\<open>last_noise[i]\<close>. The settings give the minimum, the maximum
  and the curve exponent only.
\<close>

theorem C10_axis_weights:
  assumes "FTNoIR_Filter_filter delta_RC noise_RC s clk input output st0 = Some (st', out')"
    and "i < 6"
  shows "c = [5, 5, 3, 1, 1, 1]
       \<and> (\<exists>nn sm alpha.
           norm_noise (last_delta st' i * last_delta st' i) (last_noise st' i) = Some nn
         \<and> smoothing nn (kSmoothingScaleCurve s) = Some sm
         \<and> ewma_alpha (filter_dt clk (initialise clk input st0))
               ([5, 5, 3, 1, 1, 1] ! i
                  * (kMinSmoothing s + sm * (max_smoothing s - kMinSmoothing s))) = Some alpha
         \<and> out' i = alpha * input i + (1 - alpha) * last_output (initialise clk input st0) i)"
  using filter_axis_weights [OF assms] by (auto simp: c_def)

theorem C10_witness:
  "(0 :: nat) < 6
   \<and> (\<exists>st' out'.
         FTNoIR_Filter_filter (1 / 60) 60 example_settings example_clock example_pose
           example_rest example_running = Some (st', out')
         \<and> c = [5, 5, 3, 1, 1, 1]
         \<and> (\<exists>nn sm alpha.
               norm_noise (last_delta st' 0 * last_delta st' 0) (last_noise st' 0) = Some nn
             \<and> smoothing nn (kSmoothingScaleCurve example_settings) = Some sm
             \<and> ewma_alpha (filter_dt example_clock
                              (initialise example_clock example_pose example_running))
                   ([5, 5, 3, 1, 1, 1] ! 0
                      * (kMinSmoothing example_settings
                         + sm * (max_smoothing example_settings - kMinSmoothing example_settings)))
                 = Some alpha
             \<and> out' 0 = alpha * example_pose 0
                         + (1 - alpha) * last_output
                             (initialise example_clock example_pose example_running) 0))"
proof -
  have init: "initialise example_clock example_pose example_running = example_running"
    by (simp add: initialise_def example_running_def)
  have "0 \<le> sample_dt example_clock example_pose
            (initialise example_clock example_pose example_running)"
    unfolding init
    by (simp add: sample_dt_def elapsed_seconds_def elapsed_def conv_def example_clock_def
        example_running_def)
  moreover have "0 \<le> filter_dt example_clock (initialise example_clock example_pose example_running)"
    unfolding init
    by (simp add: filter_dt_def elapsed_seconds_def elapsed_def conv_def example_clock_def
        example_running_def)
  moreover have "0 \<le> kSmoothingScaleCurve example_settings" "0 < kMinSmoothing example_settings"
    by (simp_all add: example_settings_def)
  ultimately obtain st' out' where
    res: "FTNoIR_Filter_filter (1 / 60) 60 example_settings example_clock example_pose
            example_rest example_running = Some (st', out')"
    using filter_returns [of "1 / 60" 60 example_clock example_pose example_running
        example_settings example_rest] by auto
  have h: "(0 :: nat) < 6" by simp
  from C10_axis_weights [OF res h] res h show ?thesis by blast
qed

end
